theory Spec2Isabelle
  imports Complex_Main "HOL-Library.Word" "HOL-Library.AList" "HOL-Library.Log_Nat"
begin

section \<open>Host-side data of the bridge\<close>

text \<open>
  The bridge is a header of C++ classes around the ChakraCore C API. A wide string
  (\<^verbatim>\<open>std::wstring\<close>) is a list of 16-bit code units, a narrow string a list of bytes.
\<close>

type_synonym wchar_t = "16 word"
type_synonym wstring = "wchar_t list"

text \<open>A wide literal \<^verbatim>\<open>L"..."\<close> of ASCII characters.\<close>

definition L :: "string \<Rightarrow> wstring" where
  "L s = map (\<lambda>c. of_nat (of_char c)) s"

text \<open>The engine's result codes: the ones the bridge names, and three more of the header.\<close>

datatype JsErrorCode =
    JsNoError
  | JsErrorInvalidArgument
  | JsErrorNullArgument
  | JsErrorArgumentNotObject
  | JsErrorOutOfMemory
  | JsErrorScriptException
  | JsErrorScriptCompile
  | JsErrorFatal
  | JsErrorInExceptionState
  | JsErrorNoCurrentContext
  | JsErrorNotImplemented
  | JsErrorWrongThread

datatype remapped_error =
    InvalidArgument
  | NullArgument
  | NotAnObject
  | OutOfMemory
  | ScriptError
  | SyntaxError
  | FatalError
  | Exception
  | Unexpected

fun map_error :: "JsErrorCode \<Rightarrow> remapped_error" where
  "map_error JsErrorInvalidArgument = InvalidArgument"
| "map_error JsErrorNullArgument = NullArgument"
| "map_error JsErrorArgumentNotObject = NotAnObject"
| "map_error JsErrorOutOfMemory = OutOfMemory"
| "map_error JsErrorScriptException = ScriptError"
| "map_error JsErrorScriptCompile = SyntaxError"
| "map_error JsErrorFatal = FatalError"
| "map_error JsErrorInExceptionState = Exception"
| "map_error _ = Unexpected"

definition failed :: "JsErrorCode \<Rightarrow> bool" where
  "failed error = (error \<noteq> JsNoError)"

definition succeeded :: "JsErrorCode \<Rightarrow> bool" where
  "succeeded error = (error = JsNoError)"

text \<open>
  What host code can throw: the bridge's own \<^verbatim>\<open>exception\<close> (a result code), a
  \<^verbatim>\<open>callback_exception\<close> (a wide message), any other \<^verbatim>\<open>std::exception\<close> (the bytes of
  \<^verbatim>\<open>what()\<close>), or an object of any other type. The last constructor is not an exception:
  it marks an execution that the language leaves undefined (a read past the end of an
  array, a conversion of a double that the target type cannot hold); no handler catches it.
\<close>

datatype thrown =
    Bridge_exception JsErrorCode
  | Callback_exception wstring
  | Std_exception string
  | Other_thrown
  | Undefined_behaviour

section \<open>The engine\<close>

text \<open>
  Modelled from the spec: the entry points of the embedded engine (the spec's external
  interfaces: value construction, property access, function binding, exceptions), which
  the bridge calls and whose header \<^verbatim>\<open>chakracommon.h\<close> is not among the sources. Each entry
  point returns a result code; what it does when it accepts a call follows the spec's
  description of the operation group it belongs to.

  A \<^verbatim>\<open>JsValueRef\<close> is an opaque handle. The four singletons of the engine have
  handles of their own; every other value is a cell of the engine's heap.
\<close>

datatype JsValueRef =
    JS_INVALID_REFERENCE
  | UndefinedValue
  | NullValue
  | TrueValue
  | FalseValue
  | Ref nat

type_synonym JsPropertyIdRef = wstring

datatype js_property =
    DataProperty JsValueRef
  | AccessorProperty JsValueRef JsValueRef bool

datatype js_class = PlainObject | ErrorObject | RangeErrorObject | FunctionObject nat nat

datatype js_cell =
    NumberCell real
  | StringCell wstring
  | ObjectCell js_class "(JsPropertyIdRef \<times> js_property) list"

datatype api =
    PointerToString | DoubleToNumber | IntToNumber | BoolToBoolean
  | GetNullValue | GetUndefinedValue | GetTrueValue | GetFalseValue
  | CreateError | CreateRangeError | SetException | GetAndClearException
  | NumberToInt | NumberToDouble | StringToPointer | BooleanToBool
  | ConvertValueToString | GetPropertyIdFromName | GetProperty | SetProperty
  | CreateObject | DefineProperty | CreateFunction | SetObjectBeforeCollectCallback

datatype ref_call = AddRef JsValueRef | Release JsValueRef

text \<open>
  The engine is the bridge's environment. Its state: the heap, the pending exception, the
  log of reference-count calls it received, the finalizers registered with it, the result
  code it gives to each entry point in this state (\<open>rc\<close>: any entry point may refuse, as
  the bridge's \<^verbatim>\<open>check\<close> around each call expects), and how it prints a number.
\<close>

record engine =
  heap :: "js_cell list"
  exception_state :: "JsValueRef option"
  ref_calls :: "ref_call list"
  finalizers :: "(JsValueRef \<times> nat) list"
  rc :: "api \<Rightarrow> JsErrorCode"
  number_text :: "real \<Rightarrow> wstring"

definition alloc :: "js_cell \<Rightarrow> engine \<Rightarrow> JsValueRef \<times> engine" where
  "alloc c e = (Ref (length (heap e)), e\<lparr>heap := heap e @ [c]\<rparr>)"

definition deref :: "engine \<Rightarrow> JsValueRef \<Rightarrow> js_cell option" where
  "deref e v =
     (case v of
        Ref n \<Rightarrow> (if n < length (heap e) then Some (heap e ! n) else None)
      | _ \<Rightarrow> None)"

text \<open>An entry point returns its result code and its out parameter, and the new state.\<close>

type_synonym 'a api_call = "engine \<Rightarrow> (JsErrorCode \<times> 'a) \<times> engine"

definition entry :: "api \<Rightarrow> 'a \<Rightarrow> 'a api_call \<Rightarrow> 'a api_call" where
  "entry a dflt body e = (if rc e a \<noteq> JsNoError then ((rc e a, dflt), e) else body e)"

definition ok :: "'a \<Rightarrow> engine \<Rightarrow> (JsErrorCode \<times> 'a) \<times> engine" where
  "ok x e = ((JsNoError, x), e)"

definition JsPointerToString :: "wstring \<Rightarrow> JsValueRef api_call" where
  "JsPointerToString text =
     entry PointerToString JS_INVALID_REFERENCE
       (\<lambda>e. case alloc (StringCell text) e of (v, e') \<Rightarrow> ok v e')"

definition JsDoubleToNumber :: "real \<Rightarrow> JsValueRef api_call" where
  "JsDoubleToNumber d =
     entry DoubleToNumber JS_INVALID_REFERENCE
       (\<lambda>e. case alloc (NumberCell d) e of (v, e') \<Rightarrow> ok v e')"

definition JsIntToNumber :: "int \<Rightarrow> JsValueRef api_call" where
  "JsIntToNumber i =
     entry IntToNumber JS_INVALID_REFERENCE
       (\<lambda>e. case alloc (NumberCell (of_int i)) e of (v, e') \<Rightarrow> ok v e')"

definition JsBoolToBoolean :: "bool \<Rightarrow> JsValueRef api_call" where
  "JsBoolToBoolean b =
     entry BoolToBoolean JS_INVALID_REFERENCE (ok (if b then TrueValue else FalseValue))"

definition JsGetNullValue :: "JsValueRef api_call" where
  "JsGetNullValue = entry GetNullValue JS_INVALID_REFERENCE (ok NullValue)"

definition JsGetUndefinedValue :: "JsValueRef api_call" where
  "JsGetUndefinedValue = entry GetUndefinedValue JS_INVALID_REFERENCE (ok UndefinedValue)"

definition JsGetTrueValue :: "JsValueRef api_call" where
  "JsGetTrueValue = entry GetTrueValue JS_INVALID_REFERENCE (ok TrueValue)"

definition JsGetFalseValue :: "JsValueRef api_call" where
  "JsGetFalseValue = entry GetFalseValue JS_INVALID_REFERENCE (ok FalseValue)"

text \<open>
  Modelled from the spec: create-error and create-range-error, set-exception and
  get-and-clear-exception. An error object keeps the message value it was created with as
  its \<open>message\<close>.
\<close>

definition JsCreateError :: "JsValueRef \<Rightarrow> JsValueRef api_call" where
  "JsCreateError message =
     entry CreateError JS_INVALID_REFERENCE
       (\<lambda>e. if message = JS_INVALID_REFERENCE then ((JsErrorInvalidArgument, JS_INVALID_REFERENCE), e)
            else case alloc (ObjectCell ErrorObject [(L ''message'', DataProperty message)]) e of
                   (v, e') \<Rightarrow> ok v e')"

definition JsCreateRangeError :: "JsValueRef \<Rightarrow> JsValueRef api_call" where
  "JsCreateRangeError message =
     entry CreateRangeError JS_INVALID_REFERENCE
       (\<lambda>e. if message = JS_INVALID_REFERENCE then ((JsErrorInvalidArgument, JS_INVALID_REFERENCE), e)
            else case alloc (ObjectCell RangeErrorObject [(L ''message'', DataProperty message)]) e of
                   (v, e') \<Rightarrow> ok v e')"

definition JsSetException :: "JsValueRef \<Rightarrow> unit api_call" where
  "JsSetException exception =
     entry SetException ()
       (\<lambda>e. if exception = JS_INVALID_REFERENCE then ((JsErrorInvalidArgument, ()), e)
            else ok () (e\<lparr>exception_state := Some exception\<rparr>))"

definition JsGetAndClearException :: "JsValueRef api_call" where
  "JsGetAndClearException =
     entry GetAndClearException JS_INVALID_REFERENCE
       (\<lambda>e. case exception_state e of
              None \<Rightarrow> ((JsErrorInvalidArgument, JS_INVALID_REFERENCE), e)
            | Some x \<Rightarrow> ok x (e\<lparr>exception_state := None\<rparr>))"

text \<open>
  Modelled from the spec: the readers of primitive values. \<^verbatim>\<open>JsNumberToInt\<close> gives a 32-bit
  integer, converting as the language's ToInt32 does: truncate towards zero, then wrap into
  the two's complement range.
\<close>

definition trunc :: "real \<Rightarrow> int" where
  "trunc d = (if d < 0 then - \<lfloor>- d\<rfloor> else \<lfloor>d\<rfloor>)"

definition ToInt32 :: "real \<Rightarrow> int" where
  "ToInt32 d = (trunc d + 2 ^ 31) mod 2 ^ 32 - 2 ^ 31"

definition JsNumberToInt :: "JsValueRef \<Rightarrow> int api_call" where
  "JsNumberToInt v =
     entry NumberToInt 0
       (\<lambda>e. case deref e v of
              Some (NumberCell d) \<Rightarrow> ok (ToInt32 d) e
            | _ \<Rightarrow> ((JsErrorInvalidArgument, 0), e))"

definition JsNumberToDouble :: "JsValueRef \<Rightarrow> real api_call" where
  "JsNumberToDouble v =
     entry NumberToDouble 0
       (\<lambda>e. case deref e v of
              Some (NumberCell d) \<Rightarrow> ok d e
            | _ \<Rightarrow> ((JsErrorInvalidArgument, 0), e))"

definition JsStringToPointer :: "JsValueRef \<Rightarrow> wstring api_call" where
  "JsStringToPointer v =
     entry StringToPointer []
       (\<lambda>e. case deref e v of
              Some (StringCell s) \<Rightarrow> ok s e
            | _ \<Rightarrow> ((JsErrorInvalidArgument, []), e))"

definition JsBooleanToBool :: "JsValueRef \<Rightarrow> bool api_call" where
  "JsBooleanToBool v =
     entry BooleanToBool False
       (\<lambda>e. if v = TrueValue then ok True e
            else if v = FalseValue then ok False e
            else ((JsErrorInvalidArgument, False), e))"

definition JsAddRef :: "JsValueRef \<Rightarrow> engine \<Rightarrow> engine" where
  "JsAddRef v e = e\<lparr>ref_calls := ref_calls e @ [AddRef v]\<rparr>"

definition JsRelease :: "JsValueRef \<Rightarrow> engine \<Rightarrow> engine" where
  "JsRelease v e = e\<lparr>ref_calls := ref_calls e @ [Release v]\<rparr>"

text \<open>
  Modelled from the spec: force-to-string. How the engine prints a value (the language's
  ToString): strings print as themselves, an error object as its class name and message.
\<close>

definition object_text :: "engine \<Rightarrow> js_class \<Rightarrow> (JsPropertyIdRef \<times> js_property) list \<Rightarrow> wstring" where
  "object_text e c ps =
     (let message =
            (case map_of ps (L ''message'') of
               Some (DataProperty m) \<Rightarrow>
                 (case deref e m of Some (StringCell s) \<Rightarrow> L '': '' @ s | _ \<Rightarrow> [])
             | _ \<Rightarrow> [])
      in case c of
           PlainObject \<Rightarrow> L ''[object Object]''
         | ErrorObject \<Rightarrow> L ''Error'' @ message
         | RangeErrorObject \<Rightarrow> L ''RangeError'' @ message
         | FunctionObject _ _ \<Rightarrow> L ''function() { [native code] }'')"

definition js_text :: "engine \<Rightarrow> JsValueRef \<Rightarrow> wstring option" where
  "js_text e v =
     (case v of
        JS_INVALID_REFERENCE \<Rightarrow> None
      | UndefinedValue \<Rightarrow> Some (L ''undefined'')
      | NullValue \<Rightarrow> Some (L ''null'')
      | TrueValue \<Rightarrow> Some (L ''true'')
      | FalseValue \<Rightarrow> Some (L ''false'')
      | Ref n \<Rightarrow>
          (case deref e v of
             None \<Rightarrow> None
           | Some (NumberCell d) \<Rightarrow> Some (number_text e d)
           | Some (StringCell s) \<Rightarrow> Some s
           | Some (ObjectCell c ps) \<Rightarrow> Some (object_text e c ps)))"

definition JsConvertValueToString :: "JsValueRef \<Rightarrow> JsValueRef api_call" where
  "JsConvertValueToString v =
     entry ConvertValueToString JS_INVALID_REFERENCE
       (\<lambda>e. case deref e v of
              Some (StringCell s) \<Rightarrow> ok v e
            | _ \<Rightarrow>
               (case js_text e v of
                  None \<Rightarrow> ((JsErrorInvalidArgument, JS_INVALID_REFERENCE), e)
                | Some s \<Rightarrow> (case alloc (StringCell s) e of (r, e') \<Rightarrow> ok r e')))"

text \<open>A property identifier stands for its name.\<close>

definition JsGetPropertyIdFromName :: "wstring \<Rightarrow> JsPropertyIdRef api_call" where
  "JsGetPropertyIdFromName name = entry GetPropertyIdFromName [] (ok name)"

text \<open>
  Modelled from the spec: get and set of a named property. These are the property reads
  and writes of the bridge itself: data properties. Reading or writing an
  accessor runs script-visible code; that is \<open>script_get\<close> and \<open>script_put\<close> below, and
  these two entry points refuse it.
\<close>

definition JsGetProperty :: "JsValueRef \<Rightarrow> JsPropertyIdRef \<Rightarrow> JsValueRef api_call" where
  "JsGetProperty object propid =
     entry GetProperty JS_INVALID_REFERENCE
       (\<lambda>e. case deref e object of
              Some (ObjectCell c ps) \<Rightarrow>
                (case map_of ps propid of
                   None \<Rightarrow> ok UndefinedValue e
                 | Some (DataProperty v) \<Rightarrow> ok v e
                 | Some (AccessorProperty g s c) \<Rightarrow> ((JsErrorNotImplemented, JS_INVALID_REFERENCE), e))
            | _ \<Rightarrow> ((JsErrorArgumentNotObject, JS_INVALID_REFERENCE), e))"

definition store :: "JsValueRef \<Rightarrow> js_cell \<Rightarrow> engine \<Rightarrow> engine" where
  "store v c e = (case v of Ref n \<Rightarrow> e\<lparr>heap := (heap e)[n := c]\<rparr> | _ \<Rightarrow> e)"

definition JsSetProperty :: "JsValueRef \<Rightarrow> JsPropertyIdRef \<Rightarrow> JsValueRef \<Rightarrow> unit api_call" where
  "JsSetProperty object propid v =
     entry SetProperty ()
       (\<lambda>e. case deref e object of
              Some (ObjectCell c ps) \<Rightarrow>
                (case map_of ps propid of
                   Some (AccessorProperty g s c) \<Rightarrow> ((JsErrorNotImplemented, ()), e)
                 | _ \<Rightarrow>
                    if v = JS_INVALID_REFERENCE then ((JsErrorInvalidArgument, ()), e)
                    else ok () (store object (ObjectCell c (AList.update propid (DataProperty v) ps)) e))
            | _ \<Rightarrow> ((JsErrorArgumentNotObject, ()), e))"

definition JsCreateObject :: "JsValueRef api_call" where
  "JsCreateObject =
     entry CreateObject JS_INVALID_REFERENCE
       (\<lambda>e. case alloc (ObjectCell PlainObject []) e of (v, e') \<Rightarrow> ok v e')"

text \<open>
  Modelled from the spec: define-property-with-descriptor. \<^verbatim>\<open>JsDefineProperty\<close> reads the descriptor's \<open>configurable\<close>, \<open>get\<close> and \<open>set\<close> fields
  and installs an accessor; its out parameter tells whether the property was defined: a
  property that is there and not configurable stays as it is.
\<close>

definition descriptor_field :: "(JsPropertyIdRef \<times> js_property) list \<Rightarrow> string \<Rightarrow> JsValueRef" where
  "descriptor_field ds name =
     (case map_of ds (L name) of Some (DataProperty v) \<Rightarrow> v | _ \<Rightarrow> UndefinedValue)"

definition JsDefineProperty :: "JsValueRef \<Rightarrow> JsPropertyIdRef \<Rightarrow> JsValueRef \<Rightarrow> bool api_call" where
  "JsDefineProperty object propid descriptor =
     entry DefineProperty False
       (\<lambda>e. case (deref e object, deref e descriptor) of
              (Some (ObjectCell c ps), Some (ObjectCell dc ds)) \<Rightarrow>
                (case map_of ps propid of
                   Some (AccessorProperty g s False) \<Rightarrow> ok False e
                 | _ \<Rightarrow>
                    ok True
                      (store object
                         (ObjectCell c
                            (AList.update propid
                               (AccessorProperty (descriptor_field ds ''get'') (descriptor_field ds ''set'')
                                  (descriptor_field ds ''configurable'' = TrueValue))
                               ps))
                         e))
            | _ \<Rightarrow> ((JsErrorArgumentNotObject, False), e))"

text \<open>
  Modelled from the spec: create-function-from-trampoline and the before-collect
  finalizer. A native function object keeps the native function and the callback state it
  was created with. The bridge has one native function for each declared arity, the trampoline below,
  so the arity stands for it; the callback state is the address of the boxed callable. A
  finalizer is kept with the object it was registered for.
\<close>

definition JsCreateFunction :: "nat \<Rightarrow> nat \<Rightarrow> JsValueRef api_call" where
  "JsCreateFunction nativeFunction callbackState =
     entry CreateFunction JS_INVALID_REFERENCE
       (\<lambda>e. case alloc (ObjectCell (FunctionObject nativeFunction callbackState) []) e of
              (v, e') \<Rightarrow> ok v e')"

definition JsSetObjectBeforeCollectCallback :: "JsValueRef \<Rightarrow> nat \<Rightarrow> unit api_call" where
  "JsSetObjectBeforeCollectCallback r callbackState =
     entry SetObjectBeforeCollectCallback ()
       (\<lambda>e. if r = JS_INVALID_REFERENCE then ((JsErrorInvalidArgument, ()), e)
            else ok () (e\<lparr>finalizers := finalizers e @ [(r, callbackState)]\<rparr>))"

section \<open>Throwing computations\<close>

text \<open>
  A bridge function runs on a state and either returns or throws; the state it leaves
  behind is kept in both cases.
\<close>

type_synonym ('s, 'a) throwing = "'s \<Rightarrow> (thrown + 'a) \<times> 's"

definition ret :: "'a \<Rightarrow> ('s, 'a) throwing" where
  "ret x s = (Inr x, s)"

definition throw :: "thrown \<Rightarrow> ('s, 'a) throwing" where
  "throw t s = (Inl t, s)"

definition bnd :: "('s, 'a) throwing \<Rightarrow> ('a \<Rightarrow> ('s, 'b) throwing) \<Rightarrow> ('s, 'b) throwing" where
  "bnd m f s = (case m s of (Inl t, s') \<Rightarrow> (Inl t, s') | (Inr x, s') \<Rightarrow> f x s')"

text \<open>\<^verbatim>\<open>try { m } catch (const exception &e) { h }\<close>: only the bridge's exception is caught.\<close>

definition catch_exception ::
  "('s, 'a) throwing \<Rightarrow> (JsErrorCode \<Rightarrow> ('s, 'a) throwing) \<Rightarrow> ('s, 'a) throwing" where
  "catch_exception m h s =
     (case m s of (Inl (Bridge_exception code), s') \<Rightarrow> h code s' | r \<Rightarrow> r)"

definition check :: "JsErrorCode \<Rightarrow> ('s, unit) throwing" where
  "check error = (if failed error then throw (Bridge_exception error) else ret ())"

text \<open>\<^verbatim>\<open>T out; check(JsCall(..., &out)); return out;\<close>\<close>

definition checked :: "'a api_call \<Rightarrow> (engine, 'a) throwing" where
  "checked call e = (case call e of ((code, out), e') \<Rightarrow> bnd (check code) (\<lambda>_. ret out) e')"

text \<open>A call whose result code is dropped.\<close>

definition ignoring_result :: "'a api_call \<Rightarrow> (engine, unit) throwing" where
  "ignoring_result call e = (case call e of (_, e') \<Rightarrow> (Inr (), e'))"

section \<open>Class \<^verbatim>\<open>value\<close>: construction\<close>

text \<open>
  A \<^verbatim>\<open>value\<close> holds one \<^verbatim>\<open>JsValueRef\<close> and nothing else, so it is modelled by the handle;
  a default-constructed value holds \<^verbatim>\<open>JS_INVALID_REFERENCE\<close>.
\<close>

definition from_wstring :: "wstring \<Rightarrow> (engine, JsValueRef) throwing" where
  "from_wstring text = checked (JsPointerToString text)"

definition from_double :: "real \<Rightarrow> (engine, JsValueRef) throwing" where
  "from_double v = checked (JsDoubleToNumber v)"

definition from_int :: "int \<Rightarrow> (engine, JsValueRef) throwing" where
  "from_int v = checked (JsIntToNumber v)"

definition from_bool :: "bool \<Rightarrow> (engine, JsValueRef) throwing" where
  "from_bool v = checked (JsBoolToBoolean v)"

definition from_nullptr :: "(engine, JsValueRef) throwing" where
  "from_nullptr = checked JsGetNullValue"

definition value_undefined :: "(engine, JsValueRef) throwing" where
  "value_undefined = checked JsGetUndefinedValue"

definition value_false :: "(engine, JsValueRef) throwing" where
  "value_false = checked JsGetFalseValue"

definition value_true :: "(engine, JsValueRef) throwing" where
  "value_true = checked JsGetTrueValue"

definition object :: "(engine, JsValueRef) throwing" where
  "object = checked JsCreateObject"

text \<open>
  The host's integral types that the type predicates accept (\<^verbatim>\<open>char\<close>, \<^verbatim>\<open>wchar_t\<close> and
  \<^verbatim>\<open>bool\<close> are excluded by \<^verbatim>\<open>is_small_int_v\<close> and \<^verbatim>\<open>is_big_number_v\<close>), with a 32-bit
  \<^verbatim>\<open>int\<close>. A value of such a type is an \<open>int\<close> in the type's range.
\<close>

datatype int_type =
    T_signed_char | T_unsigned_char | T_short | T_unsigned_short
  | T_int | T_unsigned_int | T_long_long | T_unsigned_long_long

fun sizeof :: "int_type \<Rightarrow> nat" where
  "sizeof T_signed_char = 1"
| "sizeof T_unsigned_char = 1"
| "sizeof T_short = 2"
| "sizeof T_unsigned_short = 2"
| "sizeof T_int = 4"
| "sizeof T_unsigned_int = 4"
| "sizeof T_long_long = 8"
| "sizeof T_unsigned_long_long = 8"

fun is_signed :: "int_type \<Rightarrow> bool" where
  "is_signed T_signed_char = True"
| "is_signed T_short = True"
| "is_signed T_int = True"
| "is_signed T_long_long = True"
| "is_signed _ = False"

definition is_small_int_v :: "int_type \<Rightarrow> bool" where
  "is_small_int_v T = (sizeof T \<le> sizeof T_int)"

definition is_big_number_v :: "int_type \<Rightarrow> bool" where
  "is_big_number_v T = (\<not> is_small_int_v T \<and> sizeof T > sizeof T_int)"

definition in_range :: "int_type \<Rightarrow> int \<Rightarrow> bool" where
  "in_range T v =
     (if is_signed T then - (2 ^ (8 * sizeof T - 1)) \<le> v \<and> v < 2 ^ (8 * sizeof T - 1)
      else 0 \<le> v \<and> v < 2 ^ (8 * sizeof T))"

definition INT_MAX :: int where
  "INT_MAX = 2 ^ 31 - 1"

text \<open>\<^verbatim>\<open>static_cast<T>\<close> of an integer: the value modulo the width of \<open>T\<close>.\<close>

definition static_cast :: "int_type \<Rightarrow> int \<Rightarrow> int" where
  "static_cast T v =
     (if is_signed T then (v + 2 ^ (8 * sizeof T - 1)) mod 2 ^ (8 * sizeof T) - 2 ^ (8 * sizeof T - 1)
      else v mod 2 ^ (8 * sizeof T))"

text \<open>
  \<^verbatim>\<open>static_cast<double>\<close> of an integer: exact up to 53 bits, rounded to the nearest
  double (ties to even) beyond. \<^verbatim>\<open>static_cast<T>\<close> of a double truncates towards zero and
  is undefined when \<open>T\<close> cannot hold the result.
\<close>

definition static_cast_double :: "int \<Rightarrow> real" where
  "static_cast_double v =
     (if \<bar>v\<bar> \<le> 2 ^ 53 then of_int v
      else
        (let a = nat \<bar>v\<bar>;
             s = nat (bitlen (int a)) - 53;
             q = a div 2 ^ s;
             r = a mod 2 ^ s;
             q' = (if 2 ^ s < 2 * r \<or> (2 * r = 2 ^ s \<and> odd q) then q + 1 else q)
         in of_int (sgn v * int (q' * 2 ^ s))))"

definition static_cast_from_double :: "int_type \<Rightarrow> real \<Rightarrow> ('s, int) throwing" where
  "static_cast_from_double T d =
     (if in_range T (trunc d) then ret (trunc d) else throw Undefined_behaviour)"

text \<open>
  \<^verbatim>\<open>from(T val)\<close> for an integral \<open>T\<close>: the overload for \<^verbatim>\<open>is_small_int_v\<close> with its tag
  dispatch, and the overload for \<^verbatim>\<open>is_big_number_v\<close>.
\<close>

definition from_integral :: "int_type \<Rightarrow> int \<Rightarrow> (engine, JsValueRef) throwing" where
  "from_integral T val =
     (if is_small_int_v T then
        (if sizeof T < sizeof T_int \<or> is_signed T then from_int (static_cast T_int val)
         else if val > static_cast T INT_MAX then from_double (static_cast_double val)
         else from_int (static_cast T_int val))
      else from_double (static_cast_double val))"

text \<open>What a host callable returns, and the \<^verbatim>\<open>value\<close> constructor that takes it.\<close>

datatype host_value =
    H_void
  | H_value JsValueRef
  | H_bool bool
  | H_nullptr
  | H_wstring wstring
  | H_double real
  | H_integral int_type int

fun value_of :: "host_value \<Rightarrow> (engine, JsValueRef) throwing" where
  "value_of H_void = value_undefined"
| "value_of (H_value v) = ret v"
| "value_of (H_bool b) = from_bool b"
| "value_of H_nullptr = from_nullptr"
| "value_of (H_wstring text) = from_wstring text"
| "value_of (H_double d) = from_double d"
| "value_of (H_integral T val) = from_integral T val"

section \<open>Class \<^verbatim>\<open>value\<close>: retrieval\<close>

definition as_bool :: "JsValueRef \<Rightarrow> (engine, bool) throwing" where
  "as_bool val = checked (JsBooleanToBool val)"

definition as_int :: "JsValueRef \<Rightarrow> (engine, int) throwing" where
  "as_int val = checked (JsNumberToInt val)"

definition as_double :: "JsValueRef \<Rightarrow> (engine, real) throwing" where
  "as_double val = checked (JsNumberToDouble val)"

definition as_string :: "JsValueRef \<Rightarrow> (engine, wstring) throwing" where
  "as_string val = checked (JsStringToPointer val)"

text \<open>\<^verbatim>\<open>as_small_int<T>(std::true_type)\<close> and \<^verbatim>\<open>as_small_int<T>(std::false_type)\<close>.\<close>

definition as_small_int_true :: "int_type \<Rightarrow> JsValueRef \<Rightarrow> (engine, int) throwing" where
  "as_small_int_true T val = bnd (as_int val) (\<lambda>i. ret (static_cast T i))"

definition as_small_int_false :: "int_type \<Rightarrow> JsValueRef \<Rightarrow> (engine, int) throwing" where
  "as_small_int_false T this =
     bnd (as_int this) (\<lambda>val.
       if val < 0 then
         bnd (from_wstring (L ''Value is out of range'')) (\<lambda>message.
         bnd (checked (JsCreateRangeError message)) (\<lambda>error.
         bnd (ignoring_result (JsSetException error)) (\<lambda>_.
         throw (Bridge_exception JsErrorScriptException))))
       else ret (static_cast T val))"

text \<open>\<^verbatim>\<open>as<T>()\<close> for an integral \<open>T\<close>: the big-number overload or the small-number one.\<close>

definition as_integral :: "int_type \<Rightarrow> JsValueRef \<Rightarrow> (engine, int) throwing" where
  "as_integral T val =
     (if is_big_number_v T then bnd (as_double val) (static_cast_from_double T)
      else if sizeof T < sizeof T_int \<or> is_signed T then as_small_int_true T val
      else as_small_int_false T val)"

text \<open>\<^verbatim>\<open>to_string()\<close>: convert, then read the string.\<close>

definition to_string :: "JsValueRef \<Rightarrow> (engine, wstring) throwing" where
  "to_string val = bnd (checked (JsConvertValueToString val)) as_string"

text \<open>\<^verbatim>\<open>(*this)[propname]\<close> followed by a read through the proxy.\<close>

definition prop_get :: "JsValueRef \<Rightarrow> wstring \<Rightarrow> (engine, JsValueRef) throwing" where
  "prop_get obj propname =
     bnd (checked (JsGetPropertyIdFromName propname)) (\<lambda>propid. checked (JsGetProperty obj propid))"

section \<open>Exceptions of the bridge as script errors\<close>

definition identity :: "int \<Rightarrow> int \<Rightarrow> int \<times> int" where
  "identity line pos = (line, pos)"

text \<open>\<^verbatim>\<open>std::to_wstring(int)\<close>: the decimal digits, with a sign.\<close>

fun decimal :: "nat \<Rightarrow> string" where
  "decimal n =
     (if n < 10 then [char_of (48 + n)] else decimal (n div 10) @ [char_of (48 + n mod 10)])"

declare decimal.simps [simp del]

definition to_wstring :: "int \<Rightarrow> wstring" where
  "to_wstring i = (if i < 0 then L ''-'' @ L (decimal (nat (- i))) else L (decimal (nat i)))"

text \<open>
  \<^verbatim>\<open>print_exception(code, posmap)\<close>. The message starts empty; each assignment to it
  that was reached before an \<^verbatim>\<open>exception\<close> is thrown stays in the result.
\<close>

definition exception_details :: "(engine, JsValueRef) throwing" where
  "exception_details = checked JsGetAndClearException"

definition print_exception ::
  "JsErrorCode \<Rightarrow> (int \<Rightarrow> int \<Rightarrow> int \<times> int) \<Rightarrow> (engine, remapped_error \<times> wstring) throwing" where
  "print_exception code posmap =
     (let remappedcode = map_error code in
      if code = JsErrorScriptCompile \<or> code = JsErrorScriptException then
        catch_exception
          (bnd exception_details (\<lambda>einfo.
           bnd (to_string einfo) (\<lambda>message.
             if code = JsErrorScriptCompile then
               catch_exception
                 (bnd (bnd (prop_get einfo (L ''line'')) (as_integral T_int)) (\<lambda>line.
                  bnd (bnd (prop_get einfo (L ''column'')) (as_integral T_int)) (\<lambda>column.
                    case posmap line column of
                      (line', column') \<Rightarrow>
                        ret (remappedcode,
                             message @ L '' ('' @ to_wstring line' @ L '':'' @ to_wstring column' @ L '')''))))
                 (\<lambda>_. ret (remappedcode, message))
             else
               catch_exception
                 (bnd (bnd (prop_get einfo (L ''stack'')) as_string) (\<lambda>stack. ret (remappedcode, stack)))
                 (\<lambda>_. ret (remappedcode, message)))))
          (\<lambda>_. ret (remappedcode, []))
      else ret (remappedcode, []))"

fun error_messages :: "remapped_error \<Rightarrow> wstring" where
  "error_messages InvalidArgument = L ''Invalid argument''"
| "error_messages NullArgument = L ''Null argument''"
| "error_messages NotAnObject = L ''Argument not an object''"
| "error_messages OutOfMemory = L ''Out of memory''"
| "error_messages ScriptError = L ''Script error''"
| "error_messages SyntaxError = L ''Syntax error''"
| "error_messages FatalError = L ''Fatal error''"
| "error_messages Exception = L ''Exception''"
| "error_messages Unexpected = L ''Unexpected code''"

text \<open>
  \<^verbatim>\<open>exception::to_js_exception(posmap)\<close>. When building the error fails, the handler
  returns \<^verbatim>\<open>nullptr\<close>, which constructs the null value (and may throw in turn).
\<close>

definition to_js_exception ::
  "JsErrorCode \<Rightarrow> (int \<Rightarrow> int \<Rightarrow> int \<times> int) \<Rightarrow> (engine, JsValueRef) throwing" where
  "to_js_exception code posmap =
     bnd (print_exception code posmap) (\<lambda>einfo.
       catch_exception
         (bnd (from_wstring (error_messages (fst einfo) @ L '': '' @ snd einfo)) (\<lambda>message.
          bnd (checked (JsCreateError message)) (\<lambda>exc.
          bnd (checked (JsSetException exc)) (\<lambda>_.
          ret exc))))
         (\<lambda>_. from_nullptr))"

section \<open>Binding a host callable\<close>

text \<open>
  The standard library's \<^verbatim>\<open>std::wstring_convert<std::codecvt_utf8<wchar_t>>{}.from_bytes\<close>,
  which the spec calls re-encoding to the engine's string representation: UTF-8 to 16-bit
  code units, one unit for each code point. A conversion failure is a byte that starts no
  sequence (a stray continuation byte, \<open>0xF8\<close> and above), a sequence cut short or with a
  byte that is no continuation, an overlong form, an encoded surrogate, and a sequence of
  four bytes, whose code point does not fit one 16-bit unit. On a failure, a converter
  constructed without an error string throws \<^verbatim>\<open>std::range_error\<close>.
\<close>

definition continuation :: "nat \<Rightarrow> bool" where
  "continuation b = (128 \<le> b \<and> b < 192)"

fun utf8 :: "nat list \<Rightarrow> nat list option" where
  "utf8 [] = Some []"
| "utf8 (b # bs) =
     (if b < 128 then map_option ((#) b) (utf8 bs)
      else if 194 \<le> b \<and> b < 224 then
        (case bs of
           c # rest \<Rightarrow>
             if continuation c then map_option ((#) ((b - 192) * 64 + (c - 128))) (utf8 rest)
             else None
         | _ \<Rightarrow> None)
      else if 224 \<le> b \<and> b < 240 then
        (case bs of
           c # d # rest \<Rightarrow>
             if continuation c \<and> continuation d
                \<and> \<not> (b = 224 \<and> c < 160) \<and> \<not> (b = 237 \<and> 160 \<le> c)
             then map_option ((#) (((b - 224) * 64 + (c - 128)) * 64 + (d - 128))) (utf8 rest)
             else None
         | _ \<Rightarrow> None)
      else None)"

definition from_bytes :: "string \<Rightarrow> ('s, wstring) throwing" where
  "from_bytes bytes =
     (case utf8 (map of_char bytes) of
        None \<Rightarrow> throw (Std_exception ''bad conversion'')
      | Some units \<Rightarrow> ret (map of_nat units))"

text \<open>
  A host callable of declared arity \<open>ArgCount\<close> gets an array of that many values. Its
  model takes the array and includes the implicit conversions of the values to the
  parameter types (\<^verbatim>\<open>std::invoke(f, params[I]...)\<close>), which throw as the body does.
\<close>

type_synonym callable = "JsValueRef list \<Rightarrow> (engine, host_value) throwing"

definition execute_functor :: "callable \<Rightarrow> JsValueRef list \<Rightarrow> (engine, JsValueRef) throwing" where
  "execute_functor f values = bnd (f values) value_of"

text \<open>The four handlers of the trampoline, in the order of the source.\<close>

fun handlers :: "thrown \<Rightarrow> (engine, JsValueRef) throwing" where
  "handlers (Bridge_exception code) = to_js_exception code identity"
| "handlers (Callback_exception message) =
     bnd (from_wstring message) (\<lambda>m.
     bnd (checked (JsCreateError m)) (\<lambda>result.
     bnd (ignoring_result (JsSetException result)) (\<lambda>_.
     ret result)))"
| "handlers (Std_exception what) =
     bnd (from_bytes what) (\<lambda>text.
     bnd (from_wstring text) (\<lambda>m.
     bnd (checked (JsCreateError m)) (\<lambda>result.
     bnd (ignoring_result (JsSetException result)) (\<lambda>_.
     ret result))))"
| "handlers Other_thrown =
     bnd (from_wstring (L ''Unknown error'')) (\<lambda>m.
     bnd (checked (JsCreateError m)) (\<lambda>result.
     bnd (ignoring_result (JsSetException result)) (\<lambda>_.
     ret result)))"
| "handlers Undefined_behaviour = throw Undefined_behaviour"

text \<open>\<^verbatim>\<open>try { m } catch ...\<close>: what a handler throws is not caught again.\<close>

definition try_catch :: "(engine, JsValueRef) throwing \<Rightarrow> (engine, JsValueRef) throwing" where
  "try_catch m e = (case m e of (Inl t, e') \<Rightarrow> handlers t e' | (Inr v, e') \<Rightarrow> (Inr v, e'))"

text \<open>
  The trampoline that \<^verbatim>\<open>value::function<ArgCount>\<close> hands to the engine. \<open>arguments\<close> is the
  engine's argument vector, the receiver first. \<^verbatim>\<open>runtime_args\<close> is an \<^verbatim>\<open>int\<close> and is
  compared with the \<^verbatim>\<open>size_t\<close> \<open>ArgCount\<close> as an unsigned 64-bit number. With at least
  \<open>ArgCount\<close> arguments the array is read in place from \<^verbatim>\<open>arguments + 1\<close>; otherwise a
  default-constructed array receives the arguments there are.
\<close>

definition size_t :: "int \<Rightarrow> nat" where
  "size_t i = nat (i mod 2 ^ 64)"

definition trampoline :: "nat \<Rightarrow> callable \<Rightarrow> JsValueRef list \<Rightarrow> (engine, JsValueRef) throwing" where
  "trampoline ArgCount pf arguments =
     (let runtime_args = int (length arguments) - 1;
          begin = drop 1 arguments
      in if size_t runtime_args \<ge> ArgCount then
           (if length begin < ArgCount then throw Undefined_behaviour
            else try_catch (execute_functor pf (take ArgCount begin)))
         else
           (let params = replicate ArgCount JS_INVALID_REFERENCE;
                params = take (nat runtime_args) begin @ drop (nat runtime_args) params
            in try_catch (execute_functor pf params)))"

section \<open>Function values and the object builder\<close>

text \<open>
  \<^verbatim>\<open>value::function<ArgCount>\<close> boxes the callable on the host's heap and gives the
  engine the trampoline with the box as callback state. The host's state is the engine and
  the boxes (\<open>None\<close>: freed); a box's address is its index.
\<close>

record world =
  js :: engine
  boxed :: "callable option list"

definition in_engine :: "(engine, 'a) throwing \<Rightarrow> (world, 'a) throwing" where
  "in_engine m w = (case m (js w) of (r, e') \<Rightarrow> (r, w\<lparr>js := e'\<rparr>))"

text \<open>The \<^verbatim>\<open>unique_ptr\<close> frees the box when one of the two checks throws.\<close>

definition value_function :: "nat \<Rightarrow> callable \<Rightarrow> (world, JsValueRef) throwing" where
  "value_function ArgCount function w =
     (let pfcopy = length (boxed w);
          w1 = w\<lparr>boxed := boxed w @ [Some function]\<rparr>
      in case bnd (in_engine (checked (JsCreateFunction ArgCount pfcopy))) (\<lambda>result.
              bnd (in_engine (checked (JsSetObjectBeforeCollectCallback result pfcopy))) (\<lambda>_.
              ret result)) w1 of
           (Inl t, w2) \<Rightarrow> (Inl t, w2\<lparr>boxed := (boxed w2)[pfcopy := None]\<rparr>)
         | (Inr result, w2) \<Rightarrow> (Inr result, w2))"

text \<open>\<^verbatim>\<open>field\<close>: \<^verbatim>\<open>(*this)[name] = value_\<close>, a named write through the proxy.\<close>

definition field :: "wstring \<Rightarrow> JsValueRef \<Rightarrow> JsValueRef \<Rightarrow> (engine, JsValueRef) throwing" where
  "field name value' this =
     bnd (checked (JsGetPropertyIdFromName name)) (\<lambda>propid.
     bnd (checked (JsSetProperty this propid value')) (\<lambda>_.
     ret this))"

definition define_property :: "wstring \<Rightarrow> JsValueRef \<Rightarrow> JsValueRef \<Rightarrow> (engine, bool) throwing" where
  "define_property propname descriptor this =
     bnd (checked (JsGetPropertyIdFromName propname)) (\<lambda>propid.
     checked (JsDefineProperty this propid descriptor))"

text \<open>\<^verbatim>\<open>method<ArgCount>(name, handler)\<close>\<close>

definition value_method :: "nat \<Rightarrow> wstring \<Rightarrow> callable \<Rightarrow> JsValueRef \<Rightarrow> (world, JsValueRef) throwing" where
  "value_method ArgCount name handler this =
     bnd (value_function ArgCount handler) (\<lambda>f. in_engine (field name f this))"

text \<open>The setter that \<^verbatim>\<open>property(name, getter)\<close> installs: a lambda that captures the name.\<close>

definition read_only_setter :: "wstring \<Rightarrow> callable" where
  "read_only_setter name values =
     bnd (from_wstring (name @ L '': property is read-only'')) (\<lambda>message.
     bnd (checked (JsCreateError message)) (\<lambda>exc.
     bnd (checked (JsSetException exc)) (\<lambda>_.
     ret (H_value exc))))"

text \<open>\<^verbatim>\<open>property(name, getter)\<close> and \<^verbatim>\<open>property(name, getter, setter)\<close>.\<close>

definition property_accessors ::
  "wstring \<Rightarrow> callable \<Rightarrow> callable \<Rightarrow> JsValueRef \<Rightarrow> (world, JsValueRef) throwing" where
  "property_accessors name getter setter this =
     bnd (in_engine object) (\<lambda>d.
     bnd (in_engine value_false) (\<lambda>f.
     bnd (in_engine (field (L ''configurable'') f d)) (\<lambda>d.
     bnd (value_function 0 getter) (\<lambda>g.
     bnd (in_engine (field (L ''get'') g d)) (\<lambda>d.
     bnd (value_function 1 setter) (\<lambda>s.
     bnd (in_engine (field (L ''set'') s d)) (\<lambda>d.
     bnd (in_engine (define_property name d this)) (\<lambda>_.
     ret this))))))))"

definition property_getter :: "wstring \<Rightarrow> callable \<Rightarrow> JsValueRef \<Rightarrow> (world, JsValueRef) throwing" where
  "property_getter name getter this = property_accessors name getter (read_only_setter name) this"

text \<open>
  Modelled from the spec: call-function on a bound function, and script code's reads and
  writes of a property. What the engine does when script code calls a native function
  object, and when it reads or writes a property: an accessor's getter is called with the object as receiver, its
  setter with the object and the new value. A getter or setter that is not a function is
  not called.
\<close>

definition call_function :: "JsValueRef \<Rightarrow> JsValueRef list \<Rightarrow> (world, JsValueRef) throwing" where
  "call_function f arguments w =
     (case deref (js w) f of
        Some (ObjectCell (FunctionObject ArgCount p) ps) \<Rightarrow>
          (if p < length (boxed w) then
             (case boxed w ! p of
                Some pf \<Rightarrow> in_engine (trampoline ArgCount pf arguments) w
              | None \<Rightarrow> (Inl Undefined_behaviour, w))
           else (Inl Undefined_behaviour, w))
      | _ \<Rightarrow> (Inr UndefinedValue, w))"

definition property_of :: "engine \<Rightarrow> JsValueRef \<Rightarrow> wstring \<Rightarrow> js_property option" where
  "property_of e obj name =
     (case deref e obj of Some (ObjectCell c ps) \<Rightarrow> map_of ps name | _ \<Rightarrow> None)"

definition script_get :: "JsValueRef \<Rightarrow> wstring \<Rightarrow> (world, JsValueRef) throwing" where
  "script_get obj name w =
     (case property_of (js w) obj name of
        None \<Rightarrow> (Inr UndefinedValue, w)
      | Some (DataProperty v) \<Rightarrow> (Inr v, w)
      | Some (AccessorProperty g s c) \<Rightarrow> call_function g [obj] w)"

definition script_put :: "JsValueRef \<Rightarrow> wstring \<Rightarrow> JsValueRef \<Rightarrow> (world, JsValueRef) throwing" where
  "script_put obj name v w =
     (case property_of (js w) obj name of
        Some (AccessorProperty g s c) \<Rightarrow> call_function s [obj, v] w
      | _ \<Rightarrow> in_engine (bnd (checked (JsSetProperty obj name v)) (\<lambda>_. ret v)) w)"

section \<open>Class \<^verbatim>\<open>referenced_value\<close>\<close>

text \<open>
  A \<^verbatim>\<open>referenced_value\<close> is a \<^verbatim>\<open>value\<close> whose constructors, assignments and destructor
  call the engine's reference counting. \<^verbatim>\<open>add_ref\<close> and \<^verbatim>\<open>release\<close> skip the empty handle
  and drop the engine's result code.
\<close>

definition add_ref :: "JsValueRef \<Rightarrow> engine \<Rightarrow> engine" where
  "add_ref v e = (if v \<noteq> JS_INVALID_REFERENCE then JsAddRef v e else e)"

definition release :: "JsValueRef \<Rightarrow> engine \<Rightarrow> engine" where
  "release v e = (if v \<noteq> JS_INVALID_REFERENCE then JsRelease v e else e)"

text \<open>
  The host's \<^verbatim>\<open>referenced_value\<close> objects: object \<open>i\<close> holds the handle \<open>objs ! i\<close>, and
  \<open>None\<close> once it is destroyed. An operation on an object that is not alive is not a
  program, and has no result.
\<close>

type_synonym objects = "JsValueRef option list"

definition holds :: "objects \<Rightarrow> nat \<Rightarrow> JsValueRef option" where
  "holds objs i = (if i < length objs then objs ! i else None)"

text \<open>\<^verbatim>\<open>referenced_value(const value &o)\<close>: the promotion of a value.\<close>

definition promote :: "JsValueRef \<Rightarrow> objects \<times> engine \<Rightarrow> objects \<times> engine" where
  "promote v s = (case s of (objs, e) \<Rightarrow> (objs @ [Some v], add_ref v e))"

text \<open>\<^verbatim>\<open>referenced_value(const referenced_value &o)\<close>\<close>

definition copy_construct :: "nat \<Rightarrow> objects \<times> engine \<Rightarrow> (objects \<times> engine) option" where
  "copy_construct o' s =
     (case s of (objs, e) \<Rightarrow>
        (case holds objs o' of
           None \<Rightarrow> None
         | Some v \<Rightarrow> Some (objs @ [Some v], add_ref v e)))"

text \<open>\<^verbatim>\<open>referenced_value(referenced_value &&o)\<close>\<close>

definition move_construct :: "nat \<Rightarrow> objects \<times> engine \<Rightarrow> (objects \<times> engine) option" where
  "move_construct o' s =
     (case s of (objs, e) \<Rightarrow>
        (case holds objs o' of
           None \<Rightarrow> None
         | Some v \<Rightarrow> Some (objs[o' := Some JS_INVALID_REFERENCE] @ [Some v], e)))"

text \<open>\<^verbatim>\<open>operator =(referenced_value &&o)\<close>: a swap of the two handles.\<close>

definition move_assign :: "nat \<Rightarrow> nat \<Rightarrow> objects \<times> engine \<Rightarrow> (objects \<times> engine) option" where
  "move_assign this o' s =
     (case s of (objs, e) \<Rightarrow>
        (case (holds objs this, holds objs o') of
           (Some a, Some b) \<Rightarrow> Some (objs[this := Some b, o' := Some a], e)
         | _ \<Rightarrow> None))"

text \<open>\<^verbatim>\<open>operator =(const referenced_value &o)\<close>: release, assign, add a reference.\<close>

definition copy_assign :: "nat \<Rightarrow> nat \<Rightarrow> objects \<times> engine \<Rightarrow> (objects \<times> engine) option" where
  "copy_assign this o' s =
     (case s of (objs, e) \<Rightarrow>
        (case (holds objs this, holds objs o') of
           (Some a, Some b) \<Rightarrow>
             (let e1 = release a e;
                  objs1 = objs[this := Some b];
                  e2 = add_ref b e1
              in Some (objs1, e2))
         | _ \<Rightarrow> None))"

text \<open>\<^verbatim>\<open>~referenced_value()\<close>\<close>

definition destroy :: "nat \<Rightarrow> objects \<times> engine \<Rightarrow> (objects \<times> engine) option" where
  "destroy this s =
     (case s of (objs, e) \<Rightarrow>
        (case holds objs this of
           None \<Rightarrow> None
         | Some a \<Rightarrow> Some (objs[this := None], release a e)))"

datatype operation =
    Copy_construct nat
  | Move_construct nat
  | Copy_assign nat nat
  | Move_assign nat nat
  | Destroy nat

fun step :: "operation \<Rightarrow> objects \<times> engine \<Rightarrow> (objects \<times> engine) option" where
  "step (Copy_construct o') s = copy_construct o' s"
| "step (Move_construct o') s = move_construct o' s"
| "step (Copy_assign this o') s = copy_assign this o' s"
| "step (Move_assign this o') s = move_assign this o' s"
| "step (Destroy this) s = destroy this s"

fun run :: "operation list \<Rightarrow> objects \<times> engine \<Rightarrow> (objects \<times> engine) option" where
  "run [] s = Some s"
| "run (x # xs) s = (case step x s of None \<Rightarrow> None | Some s' \<Rightarrow> run xs s')"

text \<open>The ledger: the calls the engine received, and the objects that hold a handle.\<close>

fun is_increment :: "ref_call \<Rightarrow> bool" where
  "is_increment (AddRef v) = True"
| "is_increment (Release v) = False"

fun counted :: "ref_call \<Rightarrow> JsValueRef" where
  "counted (AddRef v) = v"
| "counted (Release v) = v"

definition increments :: "engine \<Rightarrow> nat" where
  "increments e = length (filter is_increment (ref_calls e))"

definition decrements :: "engine \<Rightarrow> nat" where
  "decrements e = length (filter (\<lambda>c. \<not> is_increment c) (ref_calls e))"

fun pinned :: "JsValueRef option \<Rightarrow> bool" where
  "pinned None = False"
| "pinned (Some v) = (v \<noteq> JS_INVALID_REFERENCE)"

definition live_clones :: "objects \<Rightarrow> nat" where
  "live_clones objs = length (filter pinned objs)"

definition balanced :: "objects \<times> engine \<Rightarrow> bool" where
  "balanced s =
     (case s of (objs, e) \<Rightarrow>
        increments e = decrements e + live_clones objs
        \<and> (\<forall>c \<in> set (ref_calls e). counted c \<noteq> JS_INVALID_REFERENCE))"

fun operands :: "operation \<Rightarrow> nat list" where
  "operands (Copy_construct o') = [o']"
| "operands (Move_construct o') = [o']"
| "operands (Copy_assign this o') = [this, o']"
| "operands (Move_assign this o') = [this, o']"
| "operands (Destroy this) = [this]"

section \<open>Observations\<close>

text \<open>\<^verbatim>\<open>value::is_empty()\<close>.\<close>

definition is_empty :: "JsValueRef \<Rightarrow> bool" where
  "is_empty val = (val = JS_INVALID_REFERENCE)"

text \<open>What script code reads as the class and the \<open>message\<close> of an error object.\<close>

definition object_class :: "engine \<Rightarrow> JsValueRef \<Rightarrow> js_class option" where
  "object_class e v = (case deref e v of Some (ObjectCell c ps) \<Rightarrow> Some c | _ \<Rightarrow> None)"

definition error_message :: "engine \<Rightarrow> JsValueRef \<Rightarrow> wstring option" where
  "error_message e v =
     (case deref e v of
        Some (ObjectCell c ps) \<Rightarrow>
          (case map_of ps (L ''message'') of
             Some (DataProperty m) \<Rightarrow> (case deref e m of Some (StringCell s) \<Rightarrow> Some s | _ \<Rightarrow> None)
           | _ \<Rightarrow> None)
      | _ \<Rightarrow> None)"

text \<open>An engine with an empty heap that refuses nothing.\<close>

definition fresh_engine :: engine where
  "fresh_engine =
     \<lparr>heap = [], exception_state = None, ref_calls = [], finalizers = [],
      rc = (\<lambda>_. JsNoError), number_text = (\<lambda>_. [])\<rparr>"

text \<open>
  Two properties of a computation on the engine: it leaves the engine's result codes as
  they are and throws nothing but the bridge's exception; it does so and always returns.
\<close>

definition quiet :: "(engine, 'a) throwing \<Rightarrow> bool" where
  "quiet m = (\<forall>e. rc (snd (m e)) = rc e \<and> (\<forall>t. fst (m e) = Inl t \<longrightarrow> (\<exists>code. t = Bridge_exception code)))"

definition sure :: "(engine, 'a) throwing \<Rightarrow> bool" where
  "sure m = (\<forall>e. rc (snd (m e)) = rc e \<and> (\<exists>x. fst (m e) = Inr x))"

section \<open>The trampoline: arguments\<close>

lemma size_t_id: "0 \<le> i \<Longrightarrow> i < 2 ^ 64 \<Longrightarrow> size_t i = nat i"
  by (simp add: size_t_def)

text \<open>
  Both branches of the trampoline hand the callable the same array: the arguments after
  the receiver, padded with empty values and cut to the declared arity.
\<close>

lemma trampoline_params:
  assumes "arguments \<noteq> []" and "length arguments < 65536"
  shows "trampoline ArgCount pf arguments =
         try_catch (execute_functor pf (take ArgCount (tl arguments @ replicate ArgCount JS_INVALID_REFERENCE)))"
proof -
  obtain r rest where a: "arguments = r # rest"
    using assms(1) by (cases arguments) auto
  have s: "size_t (int (length arguments) - 1) = length rest"
    using assms(2) a by (simp add: size_t_id)
  show ?thesis
  proof (cases "ArgCount \<le> length rest")
    case True
    then show ?thesis
      using s a by (simp add: trampoline_def Let_def)
  next
    case False
    then have "take ArgCount (rest @ replicate ArgCount JS_INVALID_REFERENCE)
             = rest @ replicate (ArgCount - length rest) JS_INVALID_REFERENCE"
      by simp
    then show ?thesis
      using s a False by (simp add: trampoline_def Let_def)
  qed
qed

lemma try_catch_execute_functor:
  "try_catch (execute_functor pf values) e =
     (case pf values e of
        (Inl t, e1) \<Rightarrow> handlers t e1
      | (Inr r, e1) \<Rightarrow>
          (case value_of r e1 of
             (Inl t, e2) \<Rightarrow> handlers t e2
           | (Inr v, e2) \<Rightarrow> (Inr v, e2)))"
  by (simp add: try_catch_def execute_functor_def bnd_def split: prod.splits sum.splits)

text \<open>
  C2. With a declared arity \<open>ArgCount\<close> and at least that many arguments after the receiver,
  the callable is invoked with exactly the first \<open>ArgCount\<close> of them and nothing else of the
  argument vector: the trampoline's outcome is the callable's outcome on these arguments,
  converted to a value when it returns (the value it returns, or undefined when it returns
  nothing) and handed to the handlers when it throws. So the call behaves as the call with
  the surplus arguments removed.
\<close>

theorem surplus_arguments_dropped:
  assumes "arguments \<noteq> []" and "length arguments < 65536"
    and "ArgCount \<le> length arguments - 1"
  shows "(\<forall>e. trampoline ArgCount pf arguments e =
            (case pf (take ArgCount (tl arguments)) e of
               (Inl t, e1) \<Rightarrow> handlers t e1
             | (Inr r, e1) \<Rightarrow>
                 (case value_of r e1 of
                    (Inl t, e2) \<Rightarrow> handlers t e2
                  | (Inr v, e2) \<Rightarrow> (Inr v, e2))))
       \<and> (\<forall>e v e'. pf (take ArgCount (tl arguments)) e = (Inr (H_value v), e')
             \<longrightarrow> trampoline ArgCount pf arguments e = (Inr v, e'))
       \<and> (\<forall>e e'. pf (take ArgCount (tl arguments)) e = (Inr H_void, e')
             \<longrightarrow> trampoline ArgCount pf arguments e = try_catch value_undefined e')
       \<and> trampoline ArgCount pf arguments = try_catch (execute_functor pf (take ArgCount (tl arguments)))
       \<and> trampoline ArgCount pf arguments = trampoline ArgCount pf (hd arguments # take ArgCount (tl arguments))"
proof -
  let ?first = "take ArgCount (tl arguments)"
  let ?short = "hd arguments # ?first"
  have len: "ArgCount \<le> length (tl arguments)"
    using assms(3) by simp
  have t: "trampoline ArgCount pf arguments = try_catch (execute_functor pf ?first)"
    using trampoline_params [OF assms(1,2)] len by simp
  have "length ?short < 65536"
    using assms(2) by simp
  then have s: "trampoline ArgCount pf ?short = try_catch (execute_functor pf ?first)"
    using trampoline_params [of ?short ArgCount pf] len by simp
  have 1: "\<forall>e. trampoline ArgCount pf arguments e =
            (case pf ?first e of
               (Inl t, e1) \<Rightarrow> handlers t e1
             | (Inr r, e1) \<Rightarrow>
                 (case value_of r e1 of
                    (Inl t, e2) \<Rightarrow> handlers t e2
                  | (Inr v, e2) \<Rightarrow> (Inr v, e2)))"
    by (simp add: t try_catch_execute_functor)
  have 2: "\<forall>e v e'. pf ?first e = (Inr (H_value v), e')
             \<longrightarrow> trampoline ArgCount pf arguments e = (Inr v, e')"
    by (simp add: 1 ret_def)
  have 3: "\<forall>e e'. pf ?first e = (Inr H_void, e')
             \<longrightarrow> trampoline ArgCount pf arguments e = try_catch value_undefined e'"
    by (simp add: 1 try_catch_def)
  show ?thesis
    using 1 2 3 t s by simp
qed

theorem surplus_arguments_dropped_witness:
  "[NullValue, TrueValue, FalseValue, UndefinedValue] \<noteq> []
   \<and> length [NullValue, TrueValue, FalseValue, UndefinedValue] < 65536
   \<and> 2 \<le> length [NullValue, TrueValue, FalseValue, UndefinedValue] - 1
   \<and> trampoline 2 (\<lambda>values. ret (H_value (values ! 1)))
         [NullValue, TrueValue, FalseValue, UndefinedValue] fresh_engine
       = (Inr FalseValue, fresh_engine)
   \<and> trampoline 2 (\<lambda>values. ret (H_value (values ! 1)))
         [NullValue, TrueValue, FalseValue] fresh_engine
       = (Inr FalseValue, fresh_engine)
   \<and> trampoline 2 (\<lambda>values. ret (H_value (values ! 1))) [NullValue, TrueValue, FalseValue, UndefinedValue]
       = try_catch (execute_functor (\<lambda>values. ret (H_value (values ! 1))) [TrueValue, FalseValue])
   \<and> trampoline 2 (\<lambda>values. ret (H_value (values ! 1))) [NullValue, TrueValue, FalseValue, UndefinedValue]
       = trampoline 2 (\<lambda>values. ret (H_value (values ! 1))) [NullValue, TrueValue, FalseValue]"
proof -
  let ?pf = "\<lambda>values. ret (H_value (values ! 1)) :: (engine, host_value) throwing"
  let ?arguments = "[NullValue, TrueValue, FalseValue, UndefinedValue]"
  have a: "?arguments \<noteq> []" and b: "length ?arguments < 65536"
    and c: "2 \<le> length ?arguments - 1"
    by simp_all
  have t: "take 2 (tl ?arguments) = [TrueValue, FalseValue]"
    and h: "hd ?arguments = NullValue"
    by simp_all
  note all = surplus_arguments_dropped [OF a b c, of ?pf, unfolded t h]
  have r: "?pf [TrueValue, FalseValue] fresh_engine = (Inr (H_value FalseValue), fresh_engine)"
    by (simp add: ret_def)
  have "\<forall>e v e'. ?pf [TrueValue, FalseValue] e = (Inr (H_value v), e')
          \<longrightarrow> trampoline 2 ?pf ?arguments e = (Inr v, e')"
    using all by blast
  then have 1: "trampoline 2 ?pf ?arguments fresh_engine = (Inr FalseValue, fresh_engine)"
    using r by blast
  have 3: "trampoline 2 ?pf ?arguments = try_catch (execute_functor ?pf [TrueValue, FalseValue])"
    using all by blast
  have 4: "trampoline 2 ?pf ?arguments = trampoline 2 ?pf [NullValue, TrueValue, FalseValue]"
    using all by blast
  have 2: "trampoline 2 ?pf [NullValue, TrueValue, FalseValue] fresh_engine = (Inr FalseValue, fresh_engine)"
    using 1 4 by simp
  show ?thesis
    using a b c 1 2 3 4 by blast
qed

text \<open>
  C3. With fewer arguments after the receiver than the declared arity, the callable is
  invoked with an array of \<open>ArgCount\<close> values: the supplied arguments, then empty values. No
  check of the count stands before the call: whenever the callable returns a value on that
  array, the trampoline returns it.
\<close>

theorem missing_arguments_empty:
  assumes "arguments \<noteq> []" and "length arguments < 65536"
    and "length arguments - 1 < ArgCount"
    and "params = tl arguments @ replicate (ArgCount - (length arguments - 1)) JS_INVALID_REFERENCE"
  shows "trampoline ArgCount pf arguments = try_catch (execute_functor pf params)
       \<and> length params = ArgCount
       \<and> take (length arguments - 1) params = tl arguments
       \<and> (\<forall>i. length arguments - 1 \<le> i \<and> i < ArgCount \<longrightarrow> is_empty (params ! i))
       \<and> (\<forall>e v e'. pf params e = (Inr (H_value v), e') \<longrightarrow> trampoline ArgCount pf arguments e = (Inr v, e'))"
proof -
  have p: "take ArgCount (tl arguments @ replicate ArgCount JS_INVALID_REFERENCE) = params"
    using assms(3,4) by simp
  have t: "trampoline ArgCount pf arguments = try_catch (execute_functor pf params)"
    using trampoline_params [OF assms(1,2), of ArgCount pf] p by simp
  have l: "length params = ArgCount"
    using assms(3,4) by simp
  have f: "take (length arguments - 1) params = tl arguments"
    using assms(4) by simp
  have m: "\<forall>i. length arguments - 1 \<le> i \<and> i < ArgCount \<longrightarrow> is_empty (params ! i)"
    using assms(4) by (auto simp add: is_empty_def nth_append)
  have r: "\<forall>e v e'. pf params e = (Inr (H_value v), e') \<longrightarrow> trampoline ArgCount pf arguments e = (Inr v, e')"
    by (simp add: t try_catch_def execute_functor_def bnd_def ret_def)
  show ?thesis
    using t l f m r by blast
qed

theorem missing_arguments_empty_witness:
  "[NullValue, TrueValue] \<noteq> [] \<and> length [NullValue, TrueValue] < 65536
   \<and> length [NullValue, TrueValue] - 1 < 3
   \<and> trampoline 3 (\<lambda>values. ret (H_value (values ! 2))) [NullValue, TrueValue]
       = try_catch (execute_functor (\<lambda>values. ret (H_value (values ! 2)))
           [TrueValue, JS_INVALID_REFERENCE, JS_INVALID_REFERENCE])
   \<and> trampoline 3 (\<lambda>values. ret (H_value (values ! 2))) [NullValue, TrueValue] fresh_engine
       = (Inr JS_INVALID_REFERENCE, fresh_engine)"
proof -
  let ?pf = "\<lambda>values. ret (H_value (values ! 2)) :: (engine, host_value) throwing"
  let ?params = "[TrueValue, JS_INVALID_REFERENCE, JS_INVALID_REFERENCE]"
  have a: "[NullValue, TrueValue] \<noteq> []" and b: "length [NullValue, TrueValue] < 65536"
    and c: "length [NullValue, TrueValue] - 1 < 3"
    and d: "?params = tl [NullValue, TrueValue]
              @ replicate (3 - (length [NullValue, TrueValue] - 1)) JS_INVALID_REFERENCE"
    by (simp_all add: numeral_2_eq_2)
  note t = missing_arguments_empty [OF a b c d, of ?pf]
  have r: "?pf ?params fresh_engine = (Inr (H_value JS_INVALID_REFERENCE), fresh_engine)"
    by (simp add: ret_def)
  have 1: "trampoline 3 ?pf [NullValue, TrueValue] = try_catch (execute_functor ?pf ?params)"
    using t by blast
  have "\<forall>e v e'. ?pf ?params e = (Inr (H_value v), e')
          \<longrightarrow> trampoline 3 ?pf [NullValue, TrueValue] e = (Inr v, e')"
    using t by blast
  then have 2: "trampoline 3 ?pf [NullValue, TrueValue] fresh_engine
                = (Inr JS_INVALID_REFERENCE, fresh_engine)"
    using r by blast
  show ?thesis
    using a b c 1 2 by blast
qed

section \<open>The trampoline: failures of the callable\<close>

lemma handlers_callback:
  assumes "rc e PointerToString = JsNoError" and "rc e CreateError = JsNoError"
    and "rc e SetException = JsNoError"
  shows "handlers (Callback_exception m) e =
     (Inr (Ref (Suc (length (heap e)))),
      e\<lparr>heap := heap e @ [StringCell m,
                ObjectCell ErrorObject [(L ''message'', DataProperty (Ref (length (heap e))))]],
        exception_state := Some (Ref (Suc (length (heap e))))\<rparr>)"
  using assms
  by (simp add: from_wstring_def checked_def JsPointerToString_def entry_def alloc_def ok_def
      bnd_def check_def failed_def ret_def JsCreateError_def ignoring_result_def JsSetException_def)

lemma handlers_other:
  assumes "rc e PointerToString = JsNoError" and "rc e CreateError = JsNoError"
    and "rc e SetException = JsNoError"
  shows "handlers Other_thrown e =
     (Inr (Ref (Suc (length (heap e)))),
      e\<lparr>heap := heap e @ [StringCell (L ''Unknown error''),
                ObjectCell ErrorObject [(L ''message'', DataProperty (Ref (length (heap e))))]],
        exception_state := Some (Ref (Suc (length (heap e))))\<rparr>)"
  using assms
  by (simp add: from_wstring_def checked_def JsPointerToString_def entry_def alloc_def ok_def
      bnd_def check_def failed_def ret_def JsCreateError_def ignoring_result_def JsSetException_def)

lemma error_message_new:
  "error_message
     (e\<lparr>heap := heap e @ [StringCell m,
               ObjectCell c [(L ''message'', DataProperty (Ref (length (heap e))))]],
        exception_state := x\<rparr>)
     (Ref (Suc (length (heap e)))) = Some m"
  by (simp add: error_message_def deref_def nth_append)

lemma object_class_new:
  "object_class
     (e\<lparr>heap := heap e @ [StringCell m,
               ObjectCell c [(L ''message'', DataProperty (Ref (length (heap e))))]],
        exception_state := x\<rparr>)
     (Ref (Suc (length (heap e)))) = Some c"
  by (simp add: object_class_def deref_def nth_append)

text \<open>
  C5. When the callable throws a \<^verbatim>\<open>callback_exception\<close> with message \<open>m\<close> and the engine
  accepts the three calls of the handler, the trampoline returns an error object whose
  message is \<open>m\<close>, and that object is the pending exception.
\<close>

theorem callback_exception_message_verbatim:
  assumes "arguments \<noteq> []" and "length arguments < 65536"
    and "pf (take ArgCount (tl arguments @ replicate ArgCount JS_INVALID_REFERENCE)) e
         = (Inl (Callback_exception m), e1)"
    and "rc e1 PointerToString = JsNoError" and "rc e1 CreateError = JsNoError"
    and "rc e1 SetException = JsNoError"
  shows "\<exists>result e2. trampoline ArgCount pf arguments e = (Inr result, e2)
           \<and> object_class e2 result = Some ErrorObject
           \<and> error_message e2 result = Some m \<and> exception_state e2 = Some result"
proof -
  have "trampoline ArgCount pf arguments e = handlers (Callback_exception m) e1"
    using trampoline_params [OF assms(1,2), of ArgCount pf] assms(3)
    by (simp add: try_catch_def execute_functor_def bnd_def)
  then show ?thesis
    using handlers_callback [OF assms(4,5,6), of m]
      error_message_new [where e = e1 and m = m and c = ErrorObject]
      object_class_new [where e = e1 and m = m and c = ErrorObject]
    by simp
qed

theorem callback_exception_message_verbatim_witness:
  "[NullValue] \<noteq> [] \<and> length [NullValue] < 65536
   \<and> (\<lambda>values. throw (Callback_exception (L ''bad input'')))
        (take 1 (tl [NullValue] @ replicate 1 JS_INVALID_REFERENCE)) fresh_engine
       = (Inl (Callback_exception (L ''bad input'')) :: thrown + host_value, fresh_engine)
   \<and> rc fresh_engine PointerToString = JsNoError \<and> rc fresh_engine CreateError = JsNoError
   \<and> rc fresh_engine SetException = JsNoError
   \<and> (\<exists>result e2.
         trampoline 1 (\<lambda>values. throw (Callback_exception (L ''bad input''))) [NullValue] fresh_engine
           = (Inr result, e2)
         \<and> object_class e2 result = Some ErrorObject
         \<and> error_message e2 result = Some (L ''bad input'') \<and> exception_state e2 = Some result)"
proof -
  let ?pf = "\<lambda>values. throw (Callback_exception (L ''bad input'')) :: (engine, host_value) throwing"
  have a: "[NullValue] \<noteq> []" and b: "length [NullValue] < 65536"
    and c: "?pf (take 1 (tl [NullValue] @ replicate 1 JS_INVALID_REFERENCE)) fresh_engine
            = (Inl (Callback_exception (L ''bad input'')), fresh_engine)"
    and d: "rc fresh_engine PointerToString = JsNoError" "rc fresh_engine CreateError = JsNoError"
      "rc fresh_engine SetException = JsNoError"
    by (simp_all add: throw_def fresh_engine_def)
  note t = callback_exception_message_verbatim
    [where arguments = "[NullValue]" and pf = ?pf and ArgCount = 1 and e = fresh_engine
       and m = "L ''bad input''" and ?e1.0 = fresh_engine]
  have r: "\<exists>result e2. trampoline 1 ?pf [NullValue] fresh_engine = (Inr result, e2)
             \<and> object_class e2 result = Some ErrorObject
             \<and> error_message e2 result = Some (L ''bad input'') \<and> exception_state e2 = Some result"
    by (rule t [OF a b c d])
  from a b c d r show ?thesis
    by (intro conjI)
qed

text \<open>
  C4. A callable that throws an object of no known class: the error object that the
  trampoline returns has the message \<open>Unknown error\<close>, which is not the documented
  \<open>Unhandled Exception\<close>.
\<close>

theorem unclassified_failure_message:
  "\<exists>result e2.
     trampoline 0 (\<lambda>values. throw Other_thrown) [NullValue] fresh_engine = (Inr result, e2)
     \<and> object_class e2 result = Some ErrorObject
     \<and> error_message e2 result = Some (L ''Unknown error'')
     \<and> error_message e2 result \<noteq> Some (L ''Unhandled Exception'')
     \<and> exception_state e2 = Some result"
proof -
  let ?pf = "\<lambda>values. throw Other_thrown :: (engine, host_value) throwing"
  have rcs: "rc fresh_engine PointerToString = JsNoError" "rc fresh_engine CreateError = JsNoError"
    "rc fresh_engine SetException = JsNoError"
    by (simp_all add: fresh_engine_def)
  have "trampoline 0 ?pf [NullValue] fresh_engine = handlers Other_thrown fresh_engine"
    using trampoline_params [of "[NullValue]" 0 ?pf]
    by (simp add: try_catch_def execute_functor_def bnd_def throw_def)
  moreover have "L ''Unknown error'' \<noteq> L ''Unhandled Exception''"
    by (simp add: L_def)
  ultimately show ?thesis
    using handlers_other [OF rcs]
      error_message_new [where e = fresh_engine and m = "L ''Unknown error''" and c = ErrorObject]
      object_class_new [where e = fresh_engine and m = "L ''Unknown error''" and c = ErrorObject]
    by simp
qed

section \<open>The reference ledger\<close>

lemma filter_update:
  assumes "i < length xs"
  shows "length (filter P (xs[i := x])) + (if P (xs ! i) then 1 else 0)
       = length (filter P xs) + (if P x then 1 else 0)"
proof -
  have "length (filter P xs) = length (filter P (take i xs @ xs ! i # drop (Suc i) xs))"
    using id_take_nth_drop [OF assms] by simp
  moreover have "length (filter P (xs[i := x])) = length (filter P (take i xs @ x # drop (Suc i) xs))"
    using upd_conv_take_nth_drop [OF assms] by simp
  ultimately show ?thesis by simp
qed

lemma holdsD: "holds objs i = Some a \<Longrightarrow> i < length objs \<and> objs ! i = Some a"
  by (simp add: holds_def split: if_splits)

lemma live_clones_update:
  assumes "holds objs i = Some a"
  shows "live_clones (objs[i := x]) + (if a \<noteq> JS_INVALID_REFERENCE then 1 else 0)
       = live_clones objs + (if pinned x then 1 else 0)"
  using filter_update [of i objs pinned x] holdsD [OF assms]
  by (simp add: live_clones_def)

lemma live_clones_append: "live_clones (objs @ [x]) = live_clones objs + (if pinned x then 1 else 0)"
  by (simp add: live_clones_def)

lemma holds_update: "holds (objs[i := x]) j = (if j < length objs \<and> i = j then x else holds objs j)"
  by (auto simp add: holds_def)

lemma add_ref_counts:
  "increments (add_ref v e) = increments e + (if v \<noteq> JS_INVALID_REFERENCE then 1 else 0)"
  "decrements (add_ref v e) = decrements e"
  "ref_calls (add_ref v e) = ref_calls e @ (if v \<noteq> JS_INVALID_REFERENCE then [AddRef v] else [])"
  by (simp_all add: add_ref_def JsAddRef_def increments_def decrements_def)

lemma release_counts:
  "increments (release v e) = increments e"
  "decrements (release v e) = decrements e + (if v \<noteq> JS_INVALID_REFERENCE then 1 else 0)"
  "ref_calls (release v e) = ref_calls e @ (if v \<noteq> JS_INVALID_REFERENCE then [Release v] else [])"
  by (simp_all add: release_def JsRelease_def increments_def decrements_def)

lemma copy_construct_balanced:
  assumes "balanced (objs, e)" and "copy_construct o' (objs, e) = Some s'"
  shows "balanced s'"
  using assms
  by (auto simp add: balanced_def copy_construct_def live_clones_append add_ref_counts
      split: option.splits)

lemma move_construct_balanced:
  assumes "balanced (objs, e)" and "move_construct o' (objs, e) = Some s'"
  shows "balanced s'"
proof -
  obtain v where v: "holds objs o' = Some v"
    and s': "s' = (objs[o' := Some JS_INVALID_REFERENCE] @ [Some v], e)"
    using assms(2) by (auto simp add: move_construct_def split: option.splits)
  show ?thesis
    using assms(1) live_clones_update [OF v, of "Some JS_INVALID_REFERENCE"]
    by (auto simp add: s' balanced_def live_clones_append split: if_splits)
qed

lemma copy_assign_balanced:
  assumes "balanced (objs, e)" and "copy_assign this o' (objs, e) = Some s'"
  shows "balanced s'"
proof -
  obtain a b where a: "holds objs this = Some a" and b: "holds objs o' = Some b"
    and s': "s' = (objs[this := Some b], add_ref b (release a e))"
    using assms(2)
    by (auto simp add: copy_assign_def Let_def holds_update dest: holdsD split: option.splits)
  show ?thesis
    using assms(1) live_clones_update [OF a, of "Some b"]
    by (auto simp add: s' balanced_def add_ref_counts release_counts split: if_splits)
qed

lemma move_assign_balanced:
  assumes "balanced (objs, e)" and "move_assign this o' (objs, e) = Some s'"
  shows "balanced s'"
proof -
  obtain a b where a: "holds objs this = Some a" and b: "holds objs o' = Some b"
    and s': "s' = (objs[this := Some b, o' := Some a], e)"
    using assms(2) by (auto simp add: move_assign_def split: option.splits)
  have "holds (objs[this := Some b]) o' = Some (if this = o' then b else b)"
    using a b by (auto simp add: holds_update dest: holdsD)
  then have c: "holds (objs[this := Some b]) o' = Some b" by simp
  show ?thesis
    using assms(1) live_clones_update [OF a, of "Some b"]
      live_clones_update [OF c, of "Some a"]
    by (auto simp add: s' balanced_def split: if_splits)
qed

lemma destroy_balanced:
  assumes "balanced (objs, e)" and "destroy this (objs, e) = Some s'"
  shows "balanced s'"
proof -
  obtain a where a: "holds objs this = Some a" and s': "s' = (objs[this := None], release a e)"
    using assms(2) by (auto simp add: destroy_def split: option.splits)
  show ?thesis
    using assms(1) live_clones_update [OF a, of None]
    by (auto simp add: s' balanced_def release_counts split: if_splits)
qed

lemma step_balanced:
  assumes "balanced s" and "step x s = Some s'"
  shows "balanced s'"
proof (cases s)
  case (Pair objs e)
  show ?thesis
  proof (cases x)
    case (Copy_construct o')
    then show ?thesis
      using assms Pair copy_construct_balanced [of objs e o' s'] by simp
  next
    case (Move_construct o')
    then show ?thesis
      using assms Pair move_construct_balanced [of objs e o' s'] by simp
  next
    case (Copy_assign this o')
    then show ?thesis
      using assms Pair copy_assign_balanced [of objs e this o' s'] by simp
  next
    case (Move_assign this o')
    then show ?thesis
      using assms Pair move_assign_balanced [of objs e this o' s'] by simp
  next
    case (Destroy this)
    then show ?thesis
      using assms Pair destroy_balanced [of objs e this s'] by simp
  qed
qed

lemma run_balanced: "balanced s \<Longrightarrow> run xs s = Some s' \<Longrightarrow> balanced s'"
proof (induction xs arbitrary: s)
  case Nil
  then show ?case by simp
next
  case (Cons x xs)
  then obtain t where t: "step x s = Some t" and r: "run xs t = Some s'"
    by (auto split: option.splits)
  show ?case
    using Cons.IH [OF step_balanced [OF Cons.prems(1) t] r] .
qed

lemma run_prefix: "run (xs @ ys) s = Some t \<Longrightarrow> \<exists>u. run xs s = Some u"
  by (induction xs arbitrary: s) (auto split: option.splits)

lemma promote_balanced: "ref_calls e = [] \<Longrightarrow> balanced (promote v ([], e))"
  by (simp add: balanced_def promote_def add_ref_counts live_clones_def increments_def decrements_def)

lemma empty_operands_no_calls:
  assumes "step x (objs, e) = Some (objs', e')"
    and "\<forall>i \<in> set (operands x). holds objs i = Some JS_INVALID_REFERENCE"
  shows "e' = e"
  using assms
  by (cases x)
    (auto simp add: copy_construct_def move_construct_def copy_assign_def move_assign_def
       destroy_def add_ref_def release_def Let_def split: option.splits)

lemma destroy_pinned:
  assumes "holds objs this = Some a" and "a \<noteq> JS_INVALID_REFERENCE"
  shows "destroy this (objs, e) = Some (objs[this := None], e\<lparr>ref_calls := ref_calls e @ [Release a]\<rparr>)"
  using assms by (simp add: destroy_def release_def JsRelease_def)

text \<open>
  C7. Start from one promoted value and apply any sequence of copy constructions, move
  constructions, copy assignments, move assignments and destructions to live objects.
  After every prefix of the sequence, the engine has received as many increments as
  decrements plus the number of live objects that hold a handle, and no call ever named the
  empty handle. Destroying an object that holds a handle sends exactly one decrement, for
  that handle; an operation whose operands are all empty sends nothing.
\<close>

theorem ledger_balanced:
  assumes "ref_calls e0 = []"
    and "run ops (promote v ([], e0)) = Some final"
    and "k \<le> length ops"
  shows "(\<exists>objs e. run (take k ops) (promote v ([], e0)) = Some (objs, e)
            \<and> increments e = decrements e + live_clones objs
            \<and> (\<forall>c \<in> set (ref_calls e). counted c \<noteq> JS_INVALID_REFERENCE))
       \<and> (\<forall>objs e this a. holds objs this = Some a \<and> a \<noteq> JS_INVALID_REFERENCE \<longrightarrow>
             destroy this (objs, e)
             = Some (objs[this := None], e\<lparr>ref_calls := ref_calls e @ [Release a]\<rparr>))
       \<and> (\<forall>x objs e objs' e'.
             step x (objs, e) = Some (objs', e')
             \<and> (\<forall>i \<in> set (operands x). holds objs i = Some JS_INVALID_REFERENCE)
             \<longrightarrow> e' = e)"
proof -
  have "run (take k ops @ drop k ops) (promote v ([], e0)) = Some final"
    using assms(2) by simp
  then obtain u where u: "run (take k ops) (promote v ([], e0)) = Some u"
    using run_prefix by blast
  have "balanced u"
    using run_balanced [OF promote_balanced [OF assms(1)] u] .
  then have 1: "\<exists>objs e. run (take k ops) (promote v ([], e0)) = Some (objs, e)
            \<and> increments e = decrements e + live_clones objs
            \<and> (\<forall>c \<in> set (ref_calls e). counted c \<noteq> JS_INVALID_REFERENCE)"
    using u by (cases u) (simp add: balanced_def)
  show ?thesis
    using 1 destroy_pinned empty_operands_no_calls by blast
qed

theorem ledger_balanced_witness:
  "ref_calls fresh_engine = []
   \<and> (\<exists>final. run [Copy_construct 0, Move_construct 1, Copy_assign 1 0, Destroy 2, Move_assign 0 1]
                  (promote (Ref 0) ([], fresh_engine)) = Some final)
   \<and> 4 \<le> length [Copy_construct 0, Move_construct 1, Copy_assign 1 0, Destroy 2, Move_assign 0 1]
   \<and> (\<exists>objs e. run (take 4 [Copy_construct 0, Move_construct 1, Copy_assign 1 0, Destroy 2, Move_assign 0 1])
                  (promote (Ref 0) ([], fresh_engine)) = Some (objs, e)
          \<and> increments e = decrements e + live_clones objs)
   \<and> destroy 0 ([Some (Ref 0)], fresh_engine)
       = Some ([Some (Ref 0)][0 := None], fresh_engine\<lparr>ref_calls := ref_calls fresh_engine @ [Release (Ref 0)]\<rparr>)"
proof -
  let ?ops = "[Copy_construct 0, Move_construct 1, Copy_assign 1 0, Destroy 2, Move_assign 0 1]"
  let ?s0 = "promote (Ref 0) ([], fresh_engine)"
  have a: "ref_calls fresh_engine = []"
    by (simp add: fresh_engine_def)
  have b: "\<exists>final. run ?ops ?s0 = Some final"
    by (simp add: promote_def copy_construct_def move_construct_def copy_assign_def
        move_assign_def destroy_def holds_def Let_def)
  then obtain final where f: "run ?ops ?s0 = Some final" ..
  have c: "4 \<le> length ?ops"
    by simp
  note t = ledger_balanced [OF a f c]
  have 1: "\<exists>objs e. run (take 4 ?ops) ?s0 = Some (objs, e)
             \<and> increments e = decrements e + live_clones objs"
    using t by blast
  have h: "holds [Some (Ref 0)] 0 = Some (Ref 0) \<and> Ref 0 \<noteq> JS_INVALID_REFERENCE"
    by (simp add: holds_def)
  have 2: "destroy 0 ([Some (Ref 0)], fresh_engine)
       = Some ([Some (Ref 0)][0 := None], fresh_engine\<lparr>ref_calls := ref_calls fresh_engine @ [Release (Ref 0)]\<rparr>)"
    using t h by blast
  show ?thesis
    using a b c 1 2 by blast
qed

text \<open>
  C8, as the code has it. Move construction hands the source's handle to the new object
  and leaves the source empty. Move assignment exchanges the two handles: the destination
  gets the source's handle and the source gets the handle the destination had, so the
  source is empty afterwards exactly when the destination was empty before. Neither sends
  anything to the engine.
\<close>

theorem move_exchanges_handles:
  assumes "holds objs this = Some a" and "holds objs o' = Some b"
  shows "(\<exists>objs'. move_construct o' (objs, e) = Some (objs', e)
            \<and> holds objs' (length objs) = Some b
            \<and> holds objs' o' = Some JS_INVALID_REFERENCE)
       \<and> (\<exists>objs'. move_assign this o' (objs, e) = Some (objs', e)
            \<and> holds objs' this = Some b
            \<and> holds objs' o' = Some a)"
proof -
  have la: "this < length objs" and lb: "o' < length objs"
    using assms holdsD by blast+
  have 1: "move_construct o' (objs, e) = Some (objs[o' := Some JS_INVALID_REFERENCE] @ [Some b], e)"
    using assms(2) by (simp add: move_construct_def)
  have 2: "holds (objs[o' := Some JS_INVALID_REFERENCE] @ [Some b]) (length objs) = Some b"
    by (simp add: holds_def nth_append)
  have 3: "holds (objs[o' := Some JS_INVALID_REFERENCE] @ [Some b]) o' = Some JS_INVALID_REFERENCE"
    using lb by (simp add: holds_def nth_append)
  have 4: "move_assign this o' (objs, e) = Some (objs[this := Some b, o' := Some a], e)"
    using assms by (simp add: move_assign_def)
  have ab: "this = o' \<Longrightarrow> a = b"
    using assms by simp
  have 5: "holds (objs[this := Some b, o' := Some a]) this = Some b"
    using la lb ab by (cases "this = o'") (simp_all add: holds_def)
  have 6: "holds (objs[this := Some b, o' := Some a]) o' = Some a"
    using lb by (simp add: holds_def)
  show ?thesis
    using 1 2 3 4 5 6 by blast
qed

theorem move_exchanges_handles_witness:
  "holds [Some (Ref 0), Some (Ref 1)] 0 = Some (Ref 0)
   \<and> holds [Some (Ref 0), Some (Ref 1)] 1 = Some (Ref 1)
   \<and> (\<exists>objs'. move_construct 1 ([Some (Ref 0), Some (Ref 1)], fresh_engine) = Some (objs', fresh_engine)
          \<and> holds objs' (length [Some (Ref 0), Some (Ref 1)]) = Some (Ref 1)
          \<and> holds objs' 1 = Some JS_INVALID_REFERENCE)
   \<and> (\<exists>objs'. move_assign 0 1 ([Some (Ref 0), Some (Ref 1)], fresh_engine) = Some (objs', fresh_engine)
          \<and> holds objs' 0 = Some (Ref 1)
          \<and> holds objs' 1 = Some (Ref 0))"
proof -
  have a: "holds [Some (Ref 0), Some (Ref 1)] 0 = Some (Ref 0)"
    and b: "holds [Some (Ref 0), Some (Ref 1)] 1 = Some (Ref 1)"
    by (simp_all add: holds_def)
  show ?thesis
    using a b move_exchanges_handles [OF a b, of fresh_engine] by blast
qed

text \<open>
  Two objects pinning two values; the first is move-assigned from the second. The source
  then holds the first value: it is not empty.
\<close>

theorem move_assignment_source_keeps_a_handle:
  "move_assign 0 1 (promote (Ref 1) (promote (Ref 0) ([], fresh_engine)))
     = Some ([Some (Ref 1), Some (Ref 0)], add_ref (Ref 1) (add_ref (Ref 0) fresh_engine))
   \<and> holds [Some (Ref 1), Some (Ref 0)] 1 = Some (Ref 0)
   \<and> \<not> is_empty (Ref 0)"
  by (simp add: move_assign_def promote_def holds_def is_empty_def)

section \<open>Integers to numbers and back\<close>

lemma trunc_of_int: "trunc (of_int i) = i"
  by (simp add: trunc_def)

lemma ToInt32_of_int:
  assumes "- (2 ^ 31) \<le> i" and "i < 2 ^ 31"
  shows "ToInt32 (of_int i) = i"
  using assms by (simp add: ToInt32_def trunc_of_int)

lemma ToInt32_range: "- (2 ^ 31) \<le> ToInt32 d \<and> ToInt32 d < 2 ^ 31"
proof -
  have "0 \<le> (trunc d + 2 ^ 31) mod 2 ^ 32" and "(trunc d + 2 ^ 31) mod 2 ^ 32 < (2 ^ 32 :: int)"
    by simp_all
  then show ?thesis
    by (simp add: ToInt32_def)
qed

lemma as_int_result:
  assumes "as_int this e = (Inr val, e1)"
  shows "e1 = e \<and> - (2 ^ 31) \<le> val \<and> val < 2 ^ 31"
  using assms ToInt32_range
  by (auto simp add: as_int_def checked_def JsNumberToInt_def entry_def ok_def bnd_def check_def
      failed_def ret_def throw_def split: if_splits option.splits js_cell.splits)

lemma raise_range_error:
  assumes "rc e PointerToString = JsNoError" and "rc e CreateRangeError = JsNoError"
    and "rc e SetException = JsNoError"
  shows "bnd (from_wstring m) (\<lambda>message.
         bnd (checked (JsCreateRangeError message)) (\<lambda>error.
         bnd (ignoring_result (JsSetException error)) (\<lambda>_.
         throw (Bridge_exception JsErrorScriptException)))) e =
     (Inl (Bridge_exception JsErrorScriptException),
      e\<lparr>heap := heap e @ [StringCell m,
                ObjectCell RangeErrorObject [(L ''message'', DataProperty (Ref (length (heap e))))]],
        exception_state := Some (Ref (Suc (length (heap e))))\<rparr>)"
  using assms
  by (simp add: from_wstring_def checked_def JsPointerToString_def entry_def alloc_def ok_def
      bnd_def check_def failed_def ret_def throw_def JsCreateRangeError_def ignoring_result_def
      JsSetException_def)

lemma as_integral_unsigned_int:
  "as_integral T_unsigned_int this = as_small_int_false T_unsigned_int this"
  by (simp add: as_integral_def is_big_number_v_def is_small_int_v_def)

lemma as_small_int_false_negative:
  assumes "as_int this e = (Inr val, e1)" and "val < 0"
    and "rc e PointerToString = JsNoError" and "rc e CreateRangeError = JsNoError"
    and "rc e SetException = JsNoError"
  shows "as_small_int_false T this e =
      (Inl (Bridge_exception JsErrorScriptException),
       e\<lparr>heap := heap e @ [StringCell (L ''Value is out of range''),
                ObjectCell RangeErrorObject [(L ''message'', DataProperty (Ref (length (heap e))))]],
        exception_state := Some (Ref (Suc (length (heap e))))\<rparr>)"
  using assms(1,2) as_int_result [OF assms(1)]
    raise_range_error [OF assms(3,4,5), of "L ''Value is out of range''"]
  by (simp add: as_small_int_false_def bnd_def)

lemma as_small_int_false_nonnegative:
  assumes "as_int this e = (Inr val, e1)" and "0 \<le> val"
  shows "as_small_int_false T_unsigned_int this e = (Inr val, e)"
  using assms as_int_result [OF assms(1)]
  by (simp add: as_small_int_false_def bnd_def ret_def static_cast_def)

text \<open>
  C10. Reading a number as an unsigned type of the size of \<^verbatim>\<open>int\<close>: when the integer that
  the engine gives for the number is negative, and the engine accepts the three calls that
  follow, a range error with the message \<open>Value is out of range\<close> is made the pending
  exception and the bridge's exception with the code \<^verbatim>\<open>JsErrorScriptException\<close> (mapped to
  \<open>ScriptError\<close>) is thrown; when it is not negative, it is returned as it is.
\<close>

theorem unsigned_rejects_negative:
  assumes "\<not> is_signed T" and "sizeof T = sizeof T_int"
    and "as_int this e = (Inr val, e1)"
    and "rc e PointerToString = JsNoError" and "rc e CreateRangeError = JsNoError"
    and "rc e SetException = JsNoError"
  shows "(val < 0 \<longrightarrow>
           (\<exists>error e2. as_integral T this e = (Inl (Bridge_exception JsErrorScriptException), e2)
               \<and> map_error JsErrorScriptException = ScriptError
               \<and> exception_state e2 = Some error
               \<and> object_class e2 error = Some RangeErrorObject
               \<and> error_message e2 error = Some (L ''Value is out of range'')))
       \<and> (0 \<le> val \<longrightarrow> as_integral T this e = (Inr val, e))"
proof -
  have T: "T = T_unsigned_int"
    using assms(1,2) by (cases T) simp_all
  show ?thesis
    using as_small_int_false_negative [OF assms(3) _ assms(4,5,6), of T_unsigned_int]
      as_small_int_false_nonnegative [OF assms(3)]
      error_message_new [where e = e and m = "L ''Value is out of range''" and c = RangeErrorObject]
      object_class_new [where e = e and m = "L ''Value is out of range''" and c = RangeErrorObject]
    by (simp add: T as_integral_unsigned_int)
qed

theorem unsigned_rejects_negative_witness:
  "\<not> is_signed T_unsigned_int \<and> sizeof T_unsigned_int = sizeof T_int
   \<and> as_int (Ref 0) (fresh_engine\<lparr>heap := [NumberCell (- 5)]\<rparr>)
       = (Inr (- 5), fresh_engine\<lparr>heap := [NumberCell (- 5)]\<rparr>)
   \<and> rc (fresh_engine\<lparr>heap := [NumberCell (- 5)]\<rparr>) PointerToString = JsNoError
   \<and> rc (fresh_engine\<lparr>heap := [NumberCell (- 5)]\<rparr>) CreateRangeError = JsNoError
   \<and> rc (fresh_engine\<lparr>heap := [NumberCell (- 5)]\<rparr>) SetException = JsNoError
   \<and> (\<exists>error e2.
         as_integral T_unsigned_int (Ref 0) (fresh_engine\<lparr>heap := [NumberCell (- 5)]\<rparr>)
           = (Inl (Bridge_exception JsErrorScriptException), e2)
         \<and> exception_state e2 = Some error
         \<and> object_class e2 error = Some RangeErrorObject
         \<and> error_message e2 error = Some (L ''Value is out of range''))"
proof -
  let ?e = "fresh_engine\<lparr>heap := [NumberCell (- 5)]\<rparr>"
  have a: "\<not> is_signed T_unsigned_int" and b: "sizeof T_unsigned_int = sizeof T_int"
    by simp_all
  have c: "as_int (Ref 0) ?e = (Inr (- 5), ?e)"
    by (simp add: as_int_def checked_def JsNumberToInt_def entry_def ok_def bnd_def check_def
        failed_def ret_def deref_def fresh_engine_def ToInt32_def trunc_def)
  have d: "rc ?e PointerToString = JsNoError" "rc ?e CreateRangeError = JsNoError"
    "rc ?e SetException = JsNoError"
    by (simp_all add: fresh_engine_def)
  note t = unsigned_rejects_negative [OF a b c d]
  have r: "\<exists>error e2.
         as_integral T_unsigned_int (Ref 0) ?e = (Inl (Bridge_exception JsErrorScriptException), e2)
         \<and> exception_state e2 = Some error
         \<and> object_class e2 error = Some RangeErrorObject
         \<and> error_message e2 error = Some (L ''Value is out of range'')"
    using t by auto
  from a b c d r show ?thesis
    by (intro conjI)
qed

lemma from_integral_above_INT_MAX:
  assumes "INT_MAX < val" and "in_range T_unsigned_int val"
    and "rc e DoubleToNumber = JsNoError"
  shows "from_integral T_unsigned_int val e
       = (Inr (Ref (length (heap e))), e\<lparr>heap := heap e @ [NumberCell (of_int val)]\<rparr>)"
proof -
  have "\<bar>val\<bar> \<le> 2 ^ 53"
    using assms(1,2) by (simp add: in_range_def INT_MAX_def)
  then have "static_cast_double val = of_int val"
    by (simp add: static_cast_double_def)
  moreover have "static_cast T_unsigned_int INT_MAX = INT_MAX"
    by (simp add: static_cast_def INT_MAX_def)
  ultimately show ?thesis
    using assms
    by (simp add: from_integral_def is_small_int_v_def from_double_def checked_def
        JsDoubleToNumber_def entry_def alloc_def ok_def bnd_def check_def failed_def ret_def)
qed

lemma as_int_number:
  assumes "deref e v = Some (NumberCell d)" and "rc e NumberToInt = JsNoError"
  shows "as_int v e = (Inr (ToInt32 d), e)"
  using assms
  by (simp add: as_int_def checked_def JsNumberToInt_def entry_def ok_def bnd_def check_def
      failed_def ret_def)

lemma ToInt32_wraps:
  assumes "2 ^ 31 \<le> i" and "i < 2 ^ 32"
  shows "ToInt32 (of_int i) = i - 2 ^ 32"
proof -
  have "(i + 2 ^ 31) mod 2 ^ 32 = (i + 2 ^ 31 - 2 ^ 32 + 2 ^ 32) mod 2 ^ 32"
    by (simp add: add.commute)
  also have "\<dots> = (i + 2 ^ 31 - 2 ^ 32) mod 2 ^ 32"
    by (rule mod_add_self2)
  also have "\<dots> = i + 2 ^ 31 - 2 ^ 32"
    using assms by (intro mod_pos_pos_trivial) simp_all
  finally show ?thesis
    by (simp add: ToInt32_def trunc_of_int)
qed

text \<open>
  C6. An \<^verbatim>\<open>unsigned int\<close> above \<^verbatim>\<open>INT_MAX\<close> becomes a number through the double path,
  and reading that number back as \<^verbatim>\<open>unsigned int\<close> does not return it: the engine's
  integer for it is negative, and the conversion throws with a range error pending.
\<close>

theorem unsigned_above_INT_MAX_no_round_trip:
  assumes "INT_MAX < val" and "in_range T_unsigned_int val"
    and "rc e DoubleToNumber = JsNoError" and "rc e NumberToInt = JsNoError"
    and "rc e PointerToString = JsNoError" and "rc e CreateRangeError = JsNoError"
    and "rc e SetException = JsNoError"
  shows "\<exists>v e1 error e2.
           from_integral T_unsigned_int val e = (Inr v, e1)
           \<and> deref e1 v = Some (NumberCell (of_int val))
           \<and> as_integral T_unsigned_int v e1 = (Inl (Bridge_exception JsErrorScriptException), e2)
           \<and> exception_state e2 = Some error
           \<and> object_class e2 error = Some RangeErrorObject
           \<and> error_message e2 error = Some (L ''Value is out of range'')"
proof -
  let ?v = "Ref (length (heap e))"
  let ?e1 = "e\<lparr>heap := heap e @ [NumberCell (of_int val)]\<rparr>"
  have f: "from_integral T_unsigned_int val e = (Inr ?v, ?e1)"
    using from_integral_above_INT_MAX [OF assms(1,2,3)] .
  have d: "deref ?e1 ?v = Some (NumberCell (of_int val))"
    by (simp add: deref_def)
  have w: "ToInt32 (of_int val) = val - 2 ^ 32"
    using assms(1,2) by (intro ToInt32_wraps) (simp_all add: INT_MAX_def in_range_def)
  have n: "val - 2 ^ 32 < 0"
    using assms(2) by (simp add: in_range_def)
  have a: "as_int ?v ?e1 = (Inr (val - 2 ^ 32), ?e1)"
    using as_int_number [OF d] assms(4) w by simp
  have rcs: "rc ?e1 PointerToString = JsNoError" "rc ?e1 CreateRangeError = JsNoError"
    "rc ?e1 SetException = JsNoError"
    using assms(5,6,7) by simp_all
  show ?thesis
    using f d as_small_int_false_negative [OF a n rcs, of T_unsigned_int]
      error_message_new [where e = ?e1 and m = "L ''Value is out of range''" and c = RangeErrorObject]
      object_class_new [where e = ?e1 and m = "L ''Value is out of range''" and c = RangeErrorObject]
    by (simp add: as_integral_unsigned_int)
qed


theorem unsigned_above_INT_MAX_no_round_trip_witness:
  "INT_MAX < 3000000000 \<and> in_range T_unsigned_int 3000000000
   \<and> rc fresh_engine DoubleToNumber = JsNoError \<and> rc fresh_engine NumberToInt = JsNoError
   \<and> rc fresh_engine PointerToString = JsNoError \<and> rc fresh_engine CreateRangeError = JsNoError
   \<and> rc fresh_engine SetException = JsNoError
   \<and> (\<exists>v e1 error e2.
           from_integral T_unsigned_int 3000000000 fresh_engine = (Inr v, e1)
           \<and> deref e1 v = Some (NumberCell 3000000000)
           \<and> as_integral T_unsigned_int v e1 = (Inl (Bridge_exception JsErrorScriptException), e2)
           \<and> exception_state e2 = Some error
           \<and> object_class e2 error = Some RangeErrorObject
           \<and> error_message e2 error = Some (L ''Value is out of range''))"
proof -
  have a: "INT_MAX < 3000000000" and b: "in_range T_unsigned_int 3000000000"
    by (simp_all add: INT_MAX_def in_range_def)
  have c: "rc fresh_engine DoubleToNumber = JsNoError" "rc fresh_engine NumberToInt = JsNoError"
    "rc fresh_engine PointerToString = JsNoError" "rc fresh_engine CreateRangeError = JsNoError"
    "rc fresh_engine SetException = JsNoError"
    by (simp_all add: fresh_engine_def)
  have r: "\<exists>v e1 error e2.
           from_integral T_unsigned_int 3000000000 fresh_engine = (Inr v, e1)
           \<and> deref e1 v = Some (NumberCell 3000000000)
           \<and> as_integral T_unsigned_int v e1 = (Inl (Bridge_exception JsErrorScriptException), e2)
           \<and> exception_state e2 = Some error
           \<and> object_class e2 error = Some RangeErrorObject
           \<and> error_message e2 error = Some (L ''Value is out of range'')"
    using unsigned_above_INT_MAX_no_round_trip [OF a b c] by simp
  from a b c r show ?thesis
    by (intro conjI)
qed

text \<open>
  The round trips that do hold: every value in the range of \<^verbatim>\<open>int\<close> (for
  \<^verbatim>\<open>unsigned int\<close>, up to \<^verbatim>\<open>INT_MAX\<close>), and for the 64-bit types every value that a
  double holds exactly.
\<close>

lemma from_int_alloc:
  assumes "rc e IntToNumber = JsNoError"
  shows "from_int i e = (Inr (Ref (length (heap e))), e\<lparr>heap := heap e @ [NumberCell (of_int i)]\<rparr>)"
  using assms
  by (simp add: from_int_def checked_def JsIntToNumber_def entry_def alloc_def ok_def bnd_def
      check_def failed_def ret_def)

lemma from_double_alloc:
  assumes "rc e DoubleToNumber = JsNoError"
  shows "from_double d e = (Inr (Ref (length (heap e))), e\<lparr>heap := heap e @ [NumberCell d]\<rparr>)"
  using assms
  by (simp add: from_double_def checked_def JsDoubleToNumber_def entry_def alloc_def ok_def bnd_def
      check_def failed_def ret_def)

lemma as_double_number:
  assumes "deref e v = Some (NumberCell d)" and "rc e NumberToDouble = JsNoError"
  shows "as_double v e = (Inr d, e)"
  using assms
  by (simp add: as_double_def checked_def JsNumberToDouble_def entry_def ok_def bnd_def check_def
      failed_def ret_def)

lemma deref_new: "deref (e\<lparr>heap := heap e @ [c]\<rparr>) (Ref (length (heap e))) = Some c"
  by (simp add: deref_def)

lemma small_round_trip:
  assumes "in_range T val" and "is_small_int_v T" and "T = T_unsigned_int \<longrightarrow> val \<le> INT_MAX"
    and "rc e IntToNumber = JsNoError" and "rc e NumberToInt = JsNoError"
  shows "\<exists>v e1. from_integral T val e = (Inr v, e1) \<and> as_integral T v e1 = (Inr val, e1)"
proof -
  let ?v = "Ref (length (heap e))"
  let ?e1 = "e\<lparr>heap := heap e @ [NumberCell (of_int val)]\<rparr>"
  have i: "- (2 ^ 31) \<le> val \<and> val < 2 ^ 31"
    using assms(1,2,3) by (cases T) (simp_all add: in_range_def is_small_int_v_def INT_MAX_def)
  then have c: "static_cast T_int val = val"
    by (simp add: static_cast_def)
  have m: "static_cast T_unsigned_int INT_MAX = INT_MAX"
    by (simp add: static_cast_def INT_MAX_def)
  have f: "from_integral T val e = (Inr ?v, ?e1)"
    using assms(2,3) c m from_int_alloc [OF assms(4), of val]
    by (cases T) (simp_all add: from_integral_def is_small_int_v_def)
  have a: "as_int ?v ?e1 = (Inr val, ?e1)"
    using as_int_number [OF deref_new, of e "of_int val"] assms(5) i
    by (simp add: ToInt32_of_int)
  have same: "static_cast T val = val"
    using assms(1,2) by (cases T) (simp_all add: static_cast_def in_range_def is_small_int_v_def)
  have "as_integral T ?v ?e1 = (Inr val, ?e1)"
  proof (cases "T = T_unsigned_int")
    case True
    then have "0 \<le> val"
      using assms(1) by (simp add: in_range_def)
    then show ?thesis
      using True as_small_int_false_nonnegative [OF a] by (simp add: as_integral_unsigned_int)
  next
    case False
    then have "as_integral T ?v ?e1 = as_small_int_true T ?v ?e1"
      using assms(2) by (cases T) (simp_all add: as_integral_def is_big_number_v_def is_small_int_v_def)
    then show ?thesis
      using a same by (simp add: as_small_int_true_def bnd_def ret_def)
  qed
  then show ?thesis
    using f by blast
qed

lemma wide_round_trip:
  assumes "in_range T val" and "is_big_number_v T" and "\<bar>val\<bar> \<le> 2 ^ 53"
    and "rc e DoubleToNumber = JsNoError" and "rc e NumberToDouble = JsNoError"
  shows "\<exists>v e1. from_integral T val e = (Inr v, e1) \<and> as_integral T v e1 = (Inr val, e1)"
proof -
  let ?v = "Ref (length (heap e))"
  let ?e1 = "e\<lparr>heap := heap e @ [NumberCell (of_int val)]\<rparr>"
  have d: "static_cast_double val = of_int val"
    using assms(3) by (simp add: static_cast_double_def)
  have f: "from_integral T val e = (Inr ?v, ?e1)"
    using assms(2) d from_double_alloc [OF assms(4), of "of_int val"]
    by (simp add: from_integral_def is_big_number_v_def)
  have a: "as_double ?v ?e1 = (Inr (of_int val), ?e1)"
    using as_double_number [OF deref_new, of e "of_int val"] assms(5) by simp
  have "as_integral T ?v ?e1 = (Inr val, ?e1)"
    using assms(1,2) a
    by (simp add: as_integral_def bnd_def static_cast_from_double_def trunc_of_int ret_def)
  then show ?thesis
    using f by blast
qed

section \<open>Read-only properties\<close>

lemma object_accepted:
  assumes "rc e CreateObject = JsNoError"
  shows "object e = (Inr (Ref (length (heap e))), e\<lparr>heap := heap e @ [ObjectCell PlainObject []]\<rparr>)"
  using assms
  by (simp add: object_def checked_def JsCreateObject_def entry_def alloc_def ok_def bnd_def
      check_def failed_def ret_def)

lemma value_false_accepted:
  assumes "rc e GetFalseValue = JsNoError"
  shows "value_false e = (Inr FalseValue, e)"
  using assms
  by (simp add: value_false_def checked_def JsGetFalseValue_def entry_def ok_def bnd_def
      check_def failed_def ret_def)

lemma field_accepted:
  assumes "rc e GetPropertyIdFromName = JsNoError" and "rc e SetProperty = JsNoError"
    and "deref e this = Some (ObjectCell c ps)"
    and "\<forall>g s cf. map_of ps name \<noteq> Some (AccessorProperty g s cf)"
    and "v \<noteq> JS_INVALID_REFERENCE"
  shows "field name v this e
       = (Inr this, store this (ObjectCell c (AList.update name (DataProperty v) ps)) e)"
  using assms
  by (auto simp add: field_def checked_def JsGetPropertyIdFromName_def JsSetProperty_def entry_def
      ok_def bnd_def check_def failed_def ret_def split: option.splits js_property.splits)

lemma value_function_accepted:
  assumes "rc (js w) CreateFunction = JsNoError"
    and "rc (js w) SetObjectBeforeCollectCallback = JsNoError"
  shows "value_function ArgCount f w
       = (Inr (Ref (length (heap (js w)))),
          w\<lparr>boxed := boxed w @ [Some f],
            js := (js w)\<lparr>heap := heap (js w) @ [ObjectCell (FunctionObject ArgCount (length (boxed w))) []],
                         finalizers := finalizers (js w) @ [(Ref (length (heap (js w))), length (boxed w))]\<rparr>\<rparr>)"
  using assms
  by (simp add: value_function_def Let_def in_engine_def checked_def JsCreateFunction_def
      JsSetObjectBeforeCollectCallback_def entry_def alloc_def ok_def bnd_def check_def failed_def
      ret_def)

lemma define_property_accepted:
  assumes "rc e GetPropertyIdFromName = JsNoError" and "rc e DefineProperty = JsNoError"
    and "deref e this = Some (ObjectCell c ps)"
    and "deref e descriptor = Some (ObjectCell dc ds)"
    and "\<forall>g s. map_of ps name \<noteq> Some (AccessorProperty g s False)"
  shows "define_property name descriptor this e
       = (Inr True,
          store this
            (ObjectCell c
               (AList.update name
                  (AccessorProperty (descriptor_field ds ''get'') (descriptor_field ds ''set'')
                     (descriptor_field ds ''configurable'' = TrueValue))
                  ps))
            e)"
  using assms
  by (auto simp add: define_property_def checked_def JsGetPropertyIdFromName_def
      JsDefineProperty_def entry_def ok_def bnd_def check_def failed_def ret_def
      split: option.splits js_property.splits bool.splits)


lemmas engine_calls =
  checked_def entry_def alloc_def ok_def bnd_def check_def failed_def ret_def in_engine_def
  store_def deref_def Let_def

lemma property_accessors_accepted:
  assumes acc: "\<forall>a. rc (js w) a = JsNoError"
    and k: "k < length (heap (js w))" and cell: "heap (js w) ! k = ObjectCell c ps"
    and fresh: "\<forall>g s. map_of ps name \<noteq> Some (AccessorProperty g s False)"
  shows "property_accessors name getter setter (Ref k) w =
     (Inr (Ref k),
      w\<lparr>boxed := boxed w @ [Some getter, Some setter],
        js := (js w)\<lparr>heap :=
                 (heap (js w) @
                   [ObjectCell PlainObject
                      [(L ''configurable'', DataProperty FalseValue),
                       (L ''get'', DataProperty (Ref (Suc (length (heap (js w)))))),
                       (L ''set'', DataProperty (Ref (Suc (Suc (length (heap (js w)))))))],
                    ObjectCell (FunctionObject 0 (length (boxed w))) [],
                    ObjectCell (FunctionObject 1 (Suc (length (boxed w)))) []])
                 [k := ObjectCell c
                    (AList.update name
                       (AccessorProperty (Ref (Suc (length (heap (js w)))))
                          (Ref (Suc (Suc (length (heap (js w)))))) False) ps)],
               finalizers := finalizers (js w) @
                 [(Ref (Suc (length (heap (js w)))), length (boxed w)),
                  (Ref (Suc (Suc (length (heap (js w))))), Suc (length (boxed w)))]\<rparr>\<rparr>)"
  using assms
  apply (simp add: property_accessors_def object_def value_false_def field_def value_function_def
      define_property_def JsCreateObject_def JsGetFalseValue_def JsGetPropertyIdFromName_def
      JsSetProperty_def JsCreateFunction_def JsSetObjectBeforeCollectCallback_def
      JsDefineProperty_def descriptor_field_def engine_calls L_def nth_append list_update_append
      split: option.splits js_property.splits bool.splits)
  done


lemma read_only_setter_invoked:
  assumes "arguments \<noteq> []" and "length arguments < 65536"
    and "rc e PointerToString = JsNoError" and "rc e CreateError = JsNoError"
    and "rc e SetException = JsNoError"
  shows "trampoline 1 (read_only_setter name) arguments e =
     (Inr (Ref (Suc (length (heap e)))),
      e\<lparr>heap := heap e @ [StringCell (name @ L '': property is read-only''),
                ObjectCell ErrorObject [(L ''message'', DataProperty (Ref (length (heap e))))]],
        exception_state := Some (Ref (Suc (length (heap e))))\<rparr>)"
  using assms(3,4,5)
  by (simp add: trampoline_params [OF assms(1,2)] try_catch_def execute_functor_def
      read_only_setter_def from_wstring_def checked_def JsPointerToString_def entry_def alloc_def
      ok_def bnd_def check_def failed_def ret_def JsCreateError_def JsSetException_def)

lemma getter_invoked:
  assumes "arguments \<noteq> []" and "length arguments < 65536"
    and "getter [] e = (Inr r, e1)" and "value_of r e1 = (Inr v, e2)"
  shows "trampoline 0 getter arguments e = (Inr v, e2)"
  using assms(3,4)
  by (simp add: trampoline_params [OF assms(1,2)] try_catch_def execute_functor_def bnd_def)

text \<open>
  C9. On an engine that refuses nothing, \<^verbatim>\<open>property(name, getter)\<close> on an object (that has
  no accessor \<open>name\<close> fixed already) returns the object and leaves the pending exception as
  it was. The object then has a non-configurable accessor \<open>name\<close>. A write of any value to
  it returns an error object with the message \<open>name\<close> followed by
  \<open>: property is read-only\<close>, and that object is the pending exception. A read returns
  what the getter returns, as a value.
\<close>

theorem read_only_property:
  assumes "\<forall>a. rc (js w) a = JsNoError"
    and "deref (js w) this = Some (ObjectCell c ps)"
    and "\<forall>g s. map_of ps name \<noteq> Some (AccessorProperty g s False)"
  shows "\<exists>w' g s.
           property_getter name getter this w = (Inr this, w')
         \<and> exception_state (js w') = exception_state (js w)
         \<and> rc (js w') = rc (js w)
         \<and> property_of (js w') this name = Some (AccessorProperty g s False)
         \<and> (\<forall>v. \<exists>exc w''.
                script_put this name v w' = (Inr exc, w'')
              \<and> exception_state (js w'') = Some exc
              \<and> object_class (js w'') exc = Some ErrorObject
              \<and> error_message (js w'') exc = Some (name @ L '': property is read-only''))
         \<and> (\<forall>r e1 v e2. getter [] (js w') = (Inr r, e1) \<and> value_of r e1 = (Inr v, e2)
                \<longrightarrow> script_get this name w' = (Inr v, w'\<lparr>js := e2\<rparr>))"
proof -
  obtain k where ref: "this = Ref k" and k: "k < length (heap (js w))"
    and cell: "heap (js w) ! k = ObjectCell c ps"
    using assms(2) by (cases this) (auto simp add: deref_def split: if_splits)
  let ?n = "length (heap (js w))"
  let ?b = "length (boxed w)"
  let ?g = "Ref (Suc ?n)"
  let ?s = "Ref (Suc (Suc ?n))"
  let ?w' = "w\<lparr>boxed := boxed w @ [Some getter, Some (read_only_setter name)],
        js := (js w)\<lparr>heap :=
                 (heap (js w) @
                   [ObjectCell PlainObject
                      [(L ''configurable'', DataProperty FalseValue),
                       (L ''get'', DataProperty ?g),
                       (L ''set'', DataProperty ?s)],
                    ObjectCell (FunctionObject 0 ?b) [],
                    ObjectCell (FunctionObject 1 (Suc ?b)) []])
                 [k := ObjectCell c (AList.update name (AccessorProperty ?g ?s False) ps)],
               finalizers := finalizers (js w) @ [(?g, ?b), (?s, Suc ?b)]\<rparr>\<rparr>"
  have defined: "property_getter name getter this w = (Inr this, ?w')"
    unfolding property_getter_def ref
    using property_accessors_accepted [OF assms(1) k cell assms(3)] .
  have pend: "exception_state (js ?w') = exception_state (js w)" and same: "rc (js ?w') = rc (js w)"
    by simp_all
  have installed: "property_of (js ?w') this name = Some (AccessorProperty ?g ?s False)"
    using k by (simp add: ref property_of_def deref_def nth_append update_conv')
  have rcs: "rc (js ?w') PointerToString = JsNoError" "rc (js ?w') CreateError = JsNoError"
    "rc (js ?w') SetException = JsNoError"
    using assms(1) by simp_all
  have setter: "call_function ?s arguments ?w' = in_engine (trampoline 1 (read_only_setter name) arguments) ?w'"
    for arguments
    using k by (simp add: call_function_def deref_def nth_append)
  have getter: "call_function ?g arguments ?w' = in_engine (trampoline 0 getter arguments) ?w'"
    for arguments
    using k by (simp add: call_function_def deref_def nth_append)
  have put: "\<exists>exc w''.
                script_put this name v ?w' = (Inr exc, w'')
              \<and> exception_state (js w'') = Some exc
              \<and> object_class (js w'') exc = Some ErrorObject
              \<and> error_message (js w'') exc = Some (name @ L '': property is read-only'')" for v
  proof -
    have "script_put this name v ?w' = in_engine (trampoline 1 (read_only_setter name) [this, v]) ?w'"
      using installed setter by (simp add: script_put_def)
    then show ?thesis
      using read_only_setter_invoked [where arguments = "[this, v]" and e = "js ?w'" and name = name] rcs
        error_message_new [where e = "js ?w'" and m = "name @ L '': property is read-only''" and c = ErrorObject]
        object_class_new [where e = "js ?w'" and m = "name @ L '': property is read-only''" and c = ErrorObject]
      by (simp add: in_engine_def)
  qed
  have get: "getter [] (js ?w') = (Inr r, e1) \<and> value_of r e1 = (Inr v, e2)
                \<Longrightarrow> script_get this name ?w' = (Inr v, ?w'\<lparr>js := e2\<rparr>)" for r e1 v e2
  proof -
    assume a: "getter [] (js ?w') = (Inr r, e1) \<and> value_of r e1 = (Inr v, e2)"
    have "script_get this name ?w' = in_engine (trampoline 0 getter [this]) ?w'"
      using installed getter by (simp add: script_get_def)
    then show ?thesis
      using getter_invoked [where arguments = "[this]" and getter = getter and e = "js ?w'"
          and r = r and ?e1.0 = e1 and v = v and ?e2.0 = e2] a
      by (simp add: in_engine_def)
  qed
  show ?thesis
    using defined pend same installed put get by blast
qed

theorem read_only_property_witness:
  "(\<forall>a. rc (js \<lparr>js = fresh_engine\<lparr>heap := [ObjectCell PlainObject []]\<rparr>, boxed = []\<rparr>) a = JsNoError)
   \<and> deref (js \<lparr>js = fresh_engine\<lparr>heap := [ObjectCell PlainObject []]\<rparr>, boxed = []\<rparr>) (Ref 0)
       = Some (ObjectCell PlainObject [])
   \<and> (\<forall>g s. map_of [] (L ''b'') \<noteq> Some (AccessorProperty g s False))
   \<and> (\<exists>w' g s.
         property_getter (L ''b'') (\<lambda>values. ret (H_bool True)) (Ref 0)
           \<lparr>js = fresh_engine\<lparr>heap := [ObjectCell PlainObject []]\<rparr>, boxed = []\<rparr> = (Inr (Ref 0), w')
       \<and> exception_state (js w') = None
       \<and> property_of (js w') (Ref 0) (L ''b'') = Some (AccessorProperty g s False)
       \<and> (\<exists>exc w''.
              script_put (Ref 0) (L ''b'') NullValue w' = (Inr exc, w'')
            \<and> exception_state (js w'') = Some exc
            \<and> error_message (js w'') exc = Some (L ''b'' @ L '': property is read-only''))
       \<and> script_get (Ref 0) (L ''b'') w' = (Inr TrueValue, w'))"
proof -
  let ?w = "\<lparr>js = fresh_engine\<lparr>heap := [ObjectCell PlainObject []]\<rparr>, boxed = []\<rparr>"
  let ?getter = "\<lambda>values. ret (H_bool True) :: (engine, host_value) throwing"
  have a: "\<forall>a. rc (js ?w) a = JsNoError"
    and b: "deref (js ?w) (Ref 0) = Some (ObjectCell PlainObject [])"
    and c: "\<forall>g s. map_of [] (L ''b'') \<noteq> Some (AccessorProperty g s False)"
    by (simp_all add: fresh_engine_def deref_def)
  obtain w' g s where
    1: "property_getter (L ''b'') ?getter (Ref 0) ?w = (Inr (Ref 0), w')"
    and 2: "exception_state (js w') = exception_state (js ?w)"
    and 3: "rc (js w') = rc (js ?w)"
    and 4: "property_of (js w') (Ref 0) (L ''b'') = Some (AccessorProperty g s False)"
    and 5: "\<forall>v. \<exists>exc w''.
                script_put (Ref 0) (L ''b'') v w' = (Inr exc, w'')
              \<and> exception_state (js w'') = Some exc
              \<and> object_class (js w'') exc = Some ErrorObject
              \<and> error_message (js w'') exc = Some (L ''b'' @ L '': property is read-only'')"
    and 6: "\<forall>r e1 v e2. ?getter [] (js w') = (Inr r, e1) \<and> value_of r e1 = (Inr v, e2)
                \<longrightarrow> script_get (Ref 0) (L ''b'') w' = (Inr v, w'\<lparr>js := e2\<rparr>)"
    using read_only_property
      [where w = ?w and this = "Ref 0" and c = PlainObject and ps = "[]" and name = "L ''b''"
         and getter = ?getter, OF a b c]
    by blast
  have 7: "exception_state (js w') = None"
    using 2 by (simp add: fresh_engine_def)
  have "rc (js w') BoolToBoolean = JsNoError"
    using 3 by (simp add: fresh_engine_def)
  then have "?getter [] (js w') = (Inr (H_bool True), js w')
             \<and> value_of (H_bool True) (js w') = (Inr TrueValue, js w')"
    by (simp add: ret_def from_bool_def checked_def JsBoolToBoolean_def entry_def ok_def bnd_def
        check_def failed_def)
  then have "script_get (Ref 0) (L ''b'') w' = (Inr TrueValue, w'\<lparr>js := js w'\<rparr>)"
    using 6 by blast
  then have 8: "script_get (Ref 0) (L ''b'') w' = (Inr TrueValue, w')"
    by simp
  have 9: "\<exists>exc w''.
              script_put (Ref 0) (L ''b'') NullValue w' = (Inr exc, w'')
            \<and> exception_state (js w'') = Some exc
            \<and> error_message (js w'') exc = Some (L ''b'' @ L '': property is read-only'')"
    using 5 by blast
  have "\<exists>w' g s.
         property_getter (L ''b'') ?getter (Ref 0) ?w = (Inr (Ref 0), w')
       \<and> exception_state (js w') = None
       \<and> property_of (js w') (Ref 0) (L ''b'') = Some (AccessorProperty g s False)
       \<and> (\<exists>exc w''.
              script_put (Ref 0) (L ''b'') NullValue w' = (Inr exc, w'')
            \<and> exception_state (js w'') = Some exc
            \<and> error_message (js w'') exc = Some (L ''b'' @ L '': property is read-only''))
       \<and> script_get (Ref 0) (L ''b'') w' = (Inr TrueValue, w')"
    using 1 7 4 9 8 by blast
  with a b c show ?thesis
    by (intro conjI)
qed

section \<open>The trampoline: containment\<close>

lemma sure_quiet:
  assumes "sure m"
  shows "quiet m"
  unfolding quiet_def
proof (intro allI)
  fix e
  have "rc (snd (m e)) = rc e" and "\<exists>x. fst (m e) = Inr x"
    using assms by (simp_all add: sure_def)
  then show "rc (snd (m e)) = rc e \<and> (\<forall>t. fst (m e) = Inl t \<longrightarrow> (\<exists>code. t = Bridge_exception code))"
    by auto
qed

lemma sure_ret: "sure (ret x)"
  by (simp add: sure_def ret_def)

lemma quiet_ret: "quiet (ret x)"
  by (rule sure_quiet [OF sure_ret])

lemma quiet_bnd:
  assumes "quiet m" and "\<And>x. quiet (f x)"
  shows "quiet (bnd m f)"
  unfolding quiet_def
proof (intro allI)
  fix e
  show "rc (snd (bnd m f e)) = rc e \<and> (\<forall>t. fst (bnd m f e) = Inl t \<longrightarrow> (\<exists>code. t = Bridge_exception code))"
  proof (cases "m e")
    case (Pair r e')
    have m: "rc e' = rc e" and mt: "\<And>t. r = Inl t \<Longrightarrow> \<exists>code. t = Bridge_exception code"
      using assms(1) Pair by (auto simp add: quiet_def dest: spec [of _ e])
    show ?thesis
    proof (cases r)
      case (Inl t)
      then show ?thesis
        using Pair m mt by (simp add: bnd_def)
    next
      case (Inr x)
      then show ?thesis
        using Pair m assms(2) [of x] by (auto simp add: bnd_def quiet_def dest: spec [of _ e'])
    qed
  qed
qed

lemma sure_catch:
  assumes "quiet m" and "\<And>code. sure (h code)"
  shows "sure (catch_exception m h)"
  unfolding sure_def
proof (intro allI)
  fix e
  show "rc (snd (catch_exception m h e)) = rc e \<and> (\<exists>x. fst (catch_exception m h e) = Inr x)"
  proof (cases "m e")
    case (Pair r e')
    have m: "rc e' = rc e" and mt: "\<And>t. r = Inl t \<Longrightarrow> \<exists>code. t = Bridge_exception code"
      using assms(1) Pair by (auto simp add: quiet_def dest: spec [of _ e])
    show ?thesis
    proof (cases r)
      case (Inl t)
      then obtain code where "t = Bridge_exception code"
        using mt by blast
      then show ?thesis
        using Pair Inl m assms(2) [of code]
        by (auto simp add: catch_exception_def sure_def dest: spec [of _ e'])
    next
      case (Inr x)
      then show ?thesis
        using Pair m by (simp add: catch_exception_def)
    qed
  qed
qed

lemma quiet_catch:
  assumes "quiet m" and "\<And>code. sure (h code)"
  shows "quiet (catch_exception m h)"
  using sure_quiet [OF sure_catch [of m h]] assms by blast

lemma quiet_checked:
  assumes "\<And>e. rc (snd (call e)) = rc e"
  shows "quiet (checked call)"
  unfolding quiet_def
proof (intro allI)
  fix e
  obtain code out e' where c: "call e = ((code, out), e')"
    by (metis surj_pair)
  then have "rc e' = rc e"
    using assms [of e] by simp
  then show "rc (snd (checked call e)) = rc e
      \<and> (\<forall>t. fst (checked call e) = Inl t \<longrightarrow> (\<exists>code. t = Bridge_exception code))"
    using c by (auto simp add: checked_def bnd_def check_def throw_def ret_def)
qed

lemma rc_kept:
  "rc (snd (JsGetAndClearException e)) = rc e"
  "rc (snd (JsConvertValueToString v e)) = rc e"
  "rc (snd (JsStringToPointer v e)) = rc e"
  "rc (snd (JsGetPropertyIdFromName name e)) = rc e"
  "rc (snd (JsGetProperty v propid e)) = rc e"
  "rc (snd (JsNumberToInt v e)) = rc e"
  by (auto simp add: JsGetAndClearException_def JsConvertValueToString_def JsStringToPointer_def
      JsGetPropertyIdFromName_def JsGetProperty_def JsNumberToInt_def entry_def ok_def alloc_def
      split: option.splits js_cell.splits js_property.splits)

lemma quiet_parts:
  "quiet exception_details" "quiet (to_string v)" "quiet (as_string v)"
  "quiet (prop_get v name)" "quiet (as_integral T_int v)"
  unfolding exception_details_def to_string_def as_string_def prop_get_def
  by (auto intro!: quiet_bnd quiet_checked quiet_ret
      simp add: rc_kept as_integral_def is_big_number_v_def is_small_int_v_def as_small_int_true_def
        as_int_def)

lemma print_exception_sure: "sure (print_exception code posmap)"
  unfolding print_exception_def Let_def
  by (auto intro!: sure_catch sure_ret quiet_bnd quiet_catch quiet_ret quiet_parts
      split: prod.splits)


lemma print_exception_returns:
  "\<exists>einfo e1. print_exception code posmap e = (Inr einfo, e1) \<and> rc e1 = rc e"
proof -
  have "rc (snd (print_exception code posmap e)) = rc e"
    and "\<exists>x. fst (print_exception code posmap e) = Inr x"
    using print_exception_sure [of code posmap] by (simp_all add: sure_def)
  then show ?thesis
    by (cases "print_exception code posmap e") auto
qed

lemma to_js_exception_contains:
  assumes "rc e PointerToString = JsNoError" and "rc e CreateError = JsNoError"
    and "rc e SetException = JsNoError"
  shows "\<exists>result e'. to_js_exception code posmap e = (Inr result, e')
           \<and> exception_state e' = Some result \<and> object_class e' result = Some ErrorObject"
proof -
  obtain einfo e1 where p: "print_exception code posmap e = (Inr einfo, e1)" and r: "rc e1 = rc e"
    using print_exception_returns by blast
  let ?m = "error_messages (fst einfo) @ L '': '' @ snd einfo"
  have "to_js_exception code posmap e =
     (Inr (Ref (Suc (length (heap e1)))),
      e1\<lparr>heap := heap e1 @ [StringCell ?m,
                ObjectCell ErrorObject [(L ''message'', DataProperty (Ref (length (heap e1))))]],
        exception_state := Some (Ref (Suc (length (heap e1))))\<rparr>)"
    using assms p r
    by (simp add: to_js_exception_def catch_exception_def from_wstring_def checked_def
        JsPointerToString_def entry_def alloc_def ok_def bnd_def check_def failed_def ret_def
        JsCreateError_def JsSetException_def)
  then show ?thesis
    using object_class_new [where e = e1 and m = ?m and c = ErrorObject] by simp
qed

lemma handlers_std:
  assumes "utf8 (map of_char what) = Some units"
    and "rc e PointerToString = JsNoError" and "rc e CreateError = JsNoError"
    and "rc e SetException = JsNoError"
  shows "handlers (Std_exception what) e =
     (Inr (Ref (Suc (length (heap e)))),
      e\<lparr>heap := heap e @ [StringCell (map of_nat units),
                ObjectCell ErrorObject [(L ''message'', DataProperty (Ref (length (heap e))))]],
        exception_state := Some (Ref (Suc (length (heap e))))\<rparr>)"
  using assms
  by (simp add: from_bytes_def from_wstring_def checked_def JsPointerToString_def entry_def
      alloc_def ok_def bnd_def check_def failed_def ret_def JsCreateError_def ignoring_result_def
      JsSetException_def)

text \<open>
  What the handlers do contain: every exception, when the engine accepts the three calls
  that build the error and, for a \<^verbatim>\<open>std::exception\<close>, its description is well-formed.
\<close>

lemma handlers_contain:
  assumes "t \<noteq> Undefined_behaviour"
    and "\<forall>what. t = Std_exception what \<longrightarrow> utf8 (map of_char what) \<noteq> None"
    and "rc e PointerToString = JsNoError" and "rc e CreateError = JsNoError"
    and "rc e SetException = JsNoError"
  shows "\<exists>result e'. handlers t e = (Inr result, e')
           \<and> exception_state e' = Some result \<and> object_class e' result = Some ErrorObject"
proof (cases t)
  case (Bridge_exception code)
  then show ?thesis
    using to_js_exception_contains [OF assms(3,4,5)] by simp
next
  case (Callback_exception m)
  then show ?thesis
    using handlers_callback [OF assms(3,4,5), of m]
      object_class_new [where e = e and m = m and c = ErrorObject]
    by simp
next
  case (Std_exception what)
  then obtain units where u: "utf8 (map of_char what) = Some units"
    using assms(2) by auto
  show ?thesis
    using Std_exception handlers_std [OF u assms(3,4,5)]
      object_class_new [where e = e and m = "map of_nat units" and c = ErrorObject]
    by simp
next
  case Other_thrown
  then show ?thesis
    using handlers_other [OF assms(3,4,5)]
      object_class_new [where e = e and m = "L ''Unknown error''" and c = ErrorObject]
    by simp
next
  case Undefined_behaviour
  then show ?thesis
    using assms(1) by simp
qed

lemma trampoline_contains:
  assumes "arguments \<noteq> []" and "length arguments < 65536"
    and "execute_functor pf (take ArgCount (tl arguments @ replicate ArgCount JS_INVALID_REFERENCE)) e
         = (Inl t, e1)"
    and "t \<noteq> Undefined_behaviour"
    and "\<forall>what. t = Std_exception what \<longrightarrow> utf8 (map of_char what) \<noteq> None"
    and "rc e1 PointerToString = JsNoError" and "rc e1 CreateError = JsNoError"
    and "rc e1 SetException = JsNoError"
  shows "\<exists>result e'. trampoline ArgCount pf arguments e = (Inr result, e')
           \<and> exception_state e' = Some result \<and> object_class e' result = Some ErrorObject"
proof -
  have "trampoline ArgCount pf arguments e = handlers t e1"
    using trampoline_params [OF assms(1,2), of ArgCount pf] assms(3)
    by (simp add: try_catch_def)
  then show ?thesis
    using handlers_contain [OF assms(4,5,6,7,8)] by simp
qed

text \<open>
  C1. Three calls of a bound callable of arity 0. The callable throws a
  \<^verbatim>\<open>std::exception\<close> whose description is the byte \<open>0xFF\<close>: the conversion of the
  description throws inside the handler, and that exception leaves the trampoline with no
  exception pending. The callable throws an object of no known class while the engine
  refuses \<^verbatim>\<open>JsCreateError\<close>: the handler's \<^verbatim>\<open>check\<close> throws, and that exception leaves the
  trampoline. The callable throws the bridge's exception while the engine refuses
  \<^verbatim>\<open>JsCreateError\<close>: the trampoline returns the null value, with no exception pending.
\<close>

theorem failure_leaves_the_trampoline:
  "fst (trampoline 0 (\<lambda>values. throw (Std_exception [CHR 0xFF])) [NullValue] fresh_engine)
     = Inl (Std_exception ''bad conversion'')
   \<and> exception_state
        (snd (trampoline 0 (\<lambda>values. throw (Std_exception [CHR 0xFF])) [NullValue] fresh_engine))
     = None
   \<and> fst (trampoline 0 (\<lambda>values. throw Other_thrown) [NullValue]
          (fresh_engine\<lparr>rc := (\<lambda>a. if a = CreateError then JsErrorOutOfMemory else JsNoError)\<rparr>))
     = Inl (Bridge_exception JsErrorOutOfMemory)
   \<and> fst (trampoline 0 (\<lambda>values. throw (Bridge_exception JsErrorInvalidArgument)) [NullValue]
          (fresh_engine\<lparr>rc := (\<lambda>a. if a = CreateError then JsErrorOutOfMemory else JsNoError)\<rparr>))
     = Inr NullValue
   \<and> exception_state
        (snd (trampoline 0 (\<lambda>values. throw (Bridge_exception JsErrorInvalidArgument)) [NullValue]
          (fresh_engine\<lparr>rc := (\<lambda>a. if a = CreateError then JsErrorOutOfMemory else JsNoError)\<rparr>)))
     = None"
proof -
  have t: "trampoline 0 pf [NullValue] = try_catch (execute_functor pf [])" for pf
    using trampoline_params [of "[NullValue]" 0 pf] by simp
  have u: "utf8 (map of_char [CHR 0xFF]) = None"
    by simp
  show ?thesis
    unfolding t
    by (simp add: u try_catch_def execute_functor_def throw_def bnd_def from_bytes_def
        fresh_engine_def from_wstring_def checked_def JsPointerToString_def entry_def alloc_def
        ok_def check_def failed_def ret_def JsCreateError_def to_js_exception_def
        print_exception_def catch_exception_def from_nullptr_def JsGetNullValue_def identity_def)
qed

end
